theory Spec2Isabelle
  imports Complex_Main "HOL-Library.Word" "HOL-Library.AList" "HOL-Library.Char_ord"
    "HOL-Library.List_Lexorder" "HOL-Library.Multiset"
begin

section \<open>Wire values, geometry and the external functions\<close>

text \<open>
  \<open>server.Type\<close> tags both the connection type and the output type of a message; the
  constructors are the ones the controller switches on.
\<close>

datatype Type = RESP | Native | HTTP | WebSocket | JSON

text \<open>
  \<open>resp.Value\<close>. \<open>StringValue\<close> is the bulk string (\<open>resp.BytesValue\<close> builds the same
  value from bytes); \<open>FloatValue\<close> keeps the number it was built from; \<open>ZeroValue\<close> is
  the zero value of the Go type, which a function returns when it sets no result.
\<close>

datatype Value =
    SimpleStringValue string
  | ErrorValue string
  | IntegerValue int
  | StringValue string
  | FloatValue real
  | ArrayValue "Value list"
  | NullValue
  | ZeroValue

type_synonym uint64 = "64 word"

text \<open>\<open>float64\<close> is modelled by \<open>real\<close>: a coordinate is compared with 0 and printed.\<close>

record Position =
  X :: real
  Y :: real
  Z :: real

record BBox =
  bbMin :: Position
  bbMax :: Position

text \<open>
  The \<open>geojson.Object\<close> interface, as the values its methods return.
  \<open>isSimplePoint\<close> is the dynamic type test \<open>obj.(type) == geojson.SimplePoint\<close>.
\<close>

record Object =
  CalculatedPoint :: Position
  CalculatedBBox :: BBox
  objString :: string
  objJSON :: string
  Geohash :: "int \<Rightarrow> string option"
  IsGeometry :: bool
  isSimplePoint :: bool

text \<open>
  Functions of the standard library and of packages outside the controller:
  \<open>strconv.FormatFloat(x, 'f', -1, 64)\<close>, \<open>strconv.FormatFloat(x, 'f', 2, 64)\<close>,
  \<open>jsonString\<close>, \<open>glob.Match\<close>, \<open>glob.IsGlob\<close>, \<open>orderFields\<close>,
  \<open>BBox.ExternalJSON\<close>, \<open>geo.DistanceTo\<close>, the \<open>Limits\<close> of \<open>glob.Parse\<close>,
  \<open>strings.TrimSpace\<close>, \<open>strings.ToLower\<close>, \<open>json.Marshal\<close> of a string,
  \<open>resp.Value.String\<close>, \<open>resp.Value.MarshalRESP\<close> (\<open>None\<close> is its error),
  \<open>server.WriteWebSocketMessage\<close> and \<open>strconv.ParseFloat(s, 64)\<close> (\<open>None\<close> is its error);
  and the messages of the controller's \<open>errInvalidNumberOfArguments\<close> and
  \<open>errInvalidArgument(arg)\<close>, which are declared outside the sources.
\<close>

record extern =
  FormatFloat :: "real \<Rightarrow> string"
  FormatFloat2 :: "real \<Rightarrow> string"
  jsonString :: "string \<Rightarrow> string"
  glob_Match :: "string \<Rightarrow> string \<Rightarrow> bool"
  glob_IsGlob :: "string \<Rightarrow> bool"
  orderFields :: "(string \<times> nat) list \<Rightarrow> real list \<Rightarrow> (string \<times> real) list"
  bboxExternalJSON :: "BBox \<Rightarrow> string"
  geo_DistanceTo :: "real \<Rightarrow> real \<Rightarrow> real \<Rightarrow> real \<Rightarrow> real"
  glob_Limits :: "string \<Rightarrow> bool \<Rightarrow> string \<times> string"
  TrimSpace :: "string \<Rightarrow> string"
  json_Marshal :: "string \<Rightarrow> string"
  value_String :: "Value \<Rightarrow> string"
  value_MarshalRESP :: "Value \<Rightarrow> string option"
  ToLower :: "string \<Rightarrow> string"
  webSocketFrame :: "string \<Rightarrow> string"
  errInvalidNumberOfArguments :: string
  ParseFloat :: "string \<Rightarrow> real option"
  errInvalidArgument :: "string \<Rightarrow> string"

text \<open>\<open>strconv.FormatUint(n, 10)\<close>.\<close>

definition digit :: "nat \<Rightarrow> char" where
  "digit d = ''0123456789'' ! d"

fun FormatUint :: "nat \<Rightarrow> string" where
  "FormatUint n =
     (if n < 10 then [digit n] else FormatUint (n div 10) @ [digit (n mod 10)])"

declare FormatUint.simps [simp del]

text \<open>\<open>Position.ExternalJSON\<close> and \<open>Position.DistanceTo\<close>.\<close>

definition ExternalJSON :: "extern \<Rightarrow> Position \<Rightarrow> string" where
  \<open>ExternalJSON ex p =
     (if Z p \<noteq> 0
      then ''{"lat":'' @ FormatFloat ex (Y p) @ '',"lon":'' @ FormatFloat ex (X p)
           @ '',"z":'' @ FormatFloat ex (Z p) @ ''}''
      else ''{"lat":'' @ FormatFloat ex (Y p) @ '',"lon":'' @ FormatFloat ex (X p) @ ''}'')\<close>

definition DistanceTo :: "extern \<Rightarrow> Position \<Rightarrow> Position \<Rightarrow> real" where
  "DistanceTo ex p position = geo_DistanceTo ex (Y p) (X p) (Y position) (X position)"

section \<open>The scan writer\<close>

definition limitItems :: uint64 where
  "limitItems = 100"

definition MaxUint64 :: uint64 where
  "MaxUint64 = - 1"

datatype outputT =
    outputUnknown
  | outputIDs
  | outputObjects
  | outputCount
  | outputPoints
  | outputHashes
  | outputBounds

text \<open>
  The filters of a search. Their \<open>match\<close> methods belong to the token parser; each filter
  carries its predicate.
\<close>

record whereT =
  where_field :: string
  where_match :: "real \<Rightarrow> bool"

record whereinT =
  wherein_field :: string
  wherein_match :: "real \<Rightarrow> bool"

record whereevalT =
  whereeval_match :: "(string \<rightharpoonup> real) \<Rightarrow> bool"

text \<open>
  A collection, as far as the controller reads it: the field registry and the entries in
  id order. A Go map that is iterated is an association list with distinct keys.
\<close>

type_synonym item = "string \<times> Object \<times> real list"

record Collection =
  FieldMap :: "(string \<times> nat) list"
  FieldArr :: "string list"
  col_Count :: int
  col_items :: "item list"

record scanWriter =
  sw_wr :: string
  sw_OutputType :: Type
  sw_col :: "Collection option"
  sw_fmap :: "(string \<times> nat) list"
  sw_farr :: "string list"
  sw_fvals :: "real list"
  sw_output :: outputT
  sw_wheres :: "whereT list"
  sw_whereins :: "whereinT list"
  sw_whereevals :: "whereevalT list"
  sw_numberItems :: uint64
  sw_nofields :: bool
  sw_cursor :: uint64
  sw_limit :: uint64
  sw_hitLimit :: bool
  sw_once :: bool
  sw_count :: uint64
  sw_precision :: uint64
  sw_globPattern :: string
  sw_globEverything :: bool
  sw_globSingle :: bool
  sw_fullFields :: bool
  sw_values :: "Value list"
  sw_matchValues :: bool
  sw_respOut :: Value

record ScanWriterParams =
  p_id :: string
  p_o :: Object
  p_fields :: "real list"
  p_distance :: real
  p_noLock :: bool
  p_ignoreGlobMatch :: bool

text \<open>
  \<open>newScanWriter\<close>, given the collection \<open>c.getCol(key)\<close> found. The writer shares the
  buffer \<open>wr\<close> with its caller; \<open>sw_wr\<close> is the content of that buffer.
\<close>

definition newScanWriter ::
  "extern \<Rightarrow> Collection option \<Rightarrow> string \<Rightarrow> Type \<Rightarrow> outputT \<Rightarrow> uint64 \<Rightarrow> string \<Rightarrow> bool
    \<Rightarrow> uint64 \<Rightarrow> uint64 \<Rightarrow> whereT list \<Rightarrow> whereinT list \<Rightarrow> whereevalT list \<Rightarrow> bool
    \<Rightarrow> string + scanWriter" where
  "newScanWriter ex col wr outputType output precision globPattern matchValues
      cursor limit wheres whereins whereevals nofields =
     (if output = outputUnknown then Inl ''invalid output type''
      else
        let limit' = (if limit = 0
                      then (if output = outputCount then MaxUint64 else limitItems)
                      else limit);
            globEverything = (globPattern = ''*'' \<or> globPattern = '''');
            globSingle = (\<not> globEverything \<and> \<not> glob_IsGlob ex globPattern);
            fmap = (case col of None \<Rightarrow> [] | Some cl \<Rightarrow> FieldMap cl);
            farr = (case col of None \<Rightarrow> [] | Some cl \<Rightarrow> FieldArr cl)
        in Inr \<lparr> sw_wr = wr, sw_OutputType = outputType, sw_col = col,
                 sw_fmap = fmap, sw_farr = farr,
                 sw_fvals = replicate (length farr) 0,
                 sw_output = output, sw_wheres = wheres, sw_whereins = whereins,
                 sw_whereevals = whereevals, sw_numberItems = 0, sw_nofields = nofields,
                 sw_cursor = cursor, sw_limit = limit', sw_hitLimit = False,
                 sw_once = False, sw_count = 0, sw_precision = precision,
                 sw_globPattern = globPattern, sw_globEverything = globEverything,
                 sw_globSingle = globSingle, sw_fullFields = False, sw_values = [],
                 sw_matchValues = matchValues, sw_respOut = NullValue \<rparr>)"

definition hasFieldsOutput :: "scanWriter \<Rightarrow> bool" where
  "hasFieldsOutput sw =
     (if sw_output sw \<in> {outputObjects, outputPoints, outputHashes, outputBounds}
      then \<not> sw_nofields sw else False)"

text \<open>The cursor that \<open>writeFoot\<close> computes, and \<open>writeFoot\<close> itself.\<close>

definition footCursor :: "scanWriter \<Rightarrow> uint64" where
  "footCursor sw = (if \<not> sw_hitLimit sw then 0 else sw_cursor sw + sw_numberItems sw)"

definition writeFoot :: "scanWriter \<Rightarrow> scanWriter" where
  \<open>writeFoot sw =
     (case sw_OutputType sw of
        JSON \<Rightarrow>
          sw\<lparr> sw_wr := sw_wr sw
                 @ (if sw_output sw = outputCount then [] else '']'')
                 @ '',"count":'' @ FormatUint (unat (sw_count sw))
                 @ '',"cursor":'' @ FormatUint (unat (footCursor sw)) \<rparr>
      | RESP \<Rightarrow>
          (if sw_output sw = outputCount
           then sw\<lparr> sw_respOut := IntegerValue (sint (sw_count sw)) \<rparr>
           else sw\<lparr> sw_respOut :=
                  ArrayValue [IntegerValue (sint (footCursor sw)), ArrayValue (sw_values sw)] \<rparr>)
      | _ \<Rightarrow> sw)\<close>

text \<open>
  A run of the writer that Go would abort with an index-out-of-range panic has the result
  \<open>None\<close>.

  The value of a field of a record on the first path of \<open>fieldMatch\<close>: 0 when the
  collection has no such field or the record is too short.
\<close>

definition fieldValue :: "(string \<times> nat) list \<Rightarrow> real list \<Rightarrow> string \<Rightarrow> real option" where
  "fieldValue fmap flds name =
     (case map_of fmap name of
        None \<Rightarrow> Some 0
      | Some idx \<Rightarrow> (if length flds > idx then Some (flds ! idx) else Some 0))"

text \<open>On the second path the value is read from \<open>sw.fvals[idx]\<close>, with no check of \<open>idx\<close>.\<close>

definition fvalsValue :: "(string \<times> nat) list \<Rightarrow> real list \<Rightarrow> string \<Rightarrow> real option" where
  "fvalsValue fmap fvals name =
     (case map_of fmap name of
        None \<Rightarrow> Some 0
      | Some idx \<Rightarrow> (if idx < length fvals then Some (fvals ! idx) else None))"

text \<open>The three loops of \<open>fieldMatch\<close>; each returns at the first filter that fails.\<close>

fun wheresMatch :: "(string \<Rightarrow> real option) \<Rightarrow> real \<Rightarrow> whereT list \<Rightarrow> bool option" where
  "wheresMatch val z [] = Some True"
| "wheresMatch val z (w # ws) =
     (if where_field w = ''z''
      then (if \<not> where_match w z then Some False else wheresMatch val z ws)
      else (case val (where_field w) of
              None \<Rightarrow> None
            | Some v \<Rightarrow> (if \<not> where_match w v then Some False else wheresMatch val z ws)))"

fun whereinsMatch :: "(string \<Rightarrow> real option) \<Rightarrow> whereinT list \<Rightarrow> bool option" where
  "whereinsMatch val [] = Some True"
| "whereinsMatch val (w # ws) =
     (case val (wherein_field w) of
        None \<Rightarrow> None
      | Some v \<Rightarrow> (if \<not> wherein_match w v then Some False else whereinsMatch val ws))"

fun whereevalsMatch :: "(string \<rightharpoonup> real) \<Rightarrow> whereevalT list \<Rightarrow> bool" where
  "whereevalsMatch fwn [] = True"
| "whereevalsMatch fwn (w # ws) =
     (if \<not> whereeval_match w fwn then False else whereevalsMatch fwn ws)"

definition fieldsWithNames :: "(string \<times> nat) list \<Rightarrow> real list \<Rightarrow> (string \<rightharpoonup> real)" where
  "fieldsWithNames fmap flds =
     map_of (map (\<lambda>(field, idx). (field, if idx < length flds then flds ! idx else 0)) fmap)"

text \<open>The filters in the order \<open>fieldMatch\<close> runs them, given how a field is read.\<close>

definition filtersMatch ::
  "scanWriter \<Rightarrow> (string \<Rightarrow> real option) \<Rightarrow> real list \<Rightarrow> Object \<Rightarrow> bool option" where
  "filtersMatch sw val flds o' =
     (case wheresMatch val (Z (CalculatedPoint o')) (sw_wheres sw) of
        None \<Rightarrow> None
      | Some False \<Rightarrow> Some False
      | Some True \<Rightarrow>
          (case whereinsMatch val (sw_whereins sw) of
             None \<Rightarrow> None
           | Some False \<Rightarrow> Some False
           | Some True \<Rightarrow>
               Some (whereevalsMatch (fieldsWithNames (sw_fmap sw) flds) (sw_whereevals sw))))"

text \<open>
  \<open>fieldMatch\<close> returns the writer (its scratch array \<open>fvals\<close> is refilled on the second
  path), the field values and the verdict.
\<close>

definition fieldMatch ::
  "scanWriter \<Rightarrow> real list \<Rightarrow> Object \<Rightarrow> (scanWriter \<times> real list \<times> bool) option" where
  "fieldMatch sw flds o' =
     (if \<not> hasFieldsOutput sw \<or> sw_fullFields sw
      then
        (case filtersMatch sw (fieldValue (sw_fmap sw) flds) flds o' of
           None \<Rightarrow> None
         | Some match \<Rightarrow> Some (sw, sw_fvals sw, match))
      else
        let fvals = map (\<lambda>idx. if length flds > idx then flds ! idx else 0)
                        [0 ..< length (sw_farr sw)];
            sw' = sw\<lparr> sw_fvals := fvals \<rparr>
        in (case filtersMatch sw' (fvalsValue (sw_fmap sw') fvals) flds o' of
              None \<Rightarrow> None
            | Some match \<Rightarrow> Some (sw', fvals, match)))"

text \<open>\<open>globMatch\<close> returns \<open>(ok, keepGoing)\<close>.\<close>

definition globMatch :: "extern \<Rightarrow> scanWriter \<Rightarrow> string \<Rightarrow> Object \<Rightarrow> bool \<times> bool" where
  "globMatch ex sw id' o' =
     (if \<not> sw_globEverything sw
      then
        (if sw_globSingle sw
         then (if sw_globPattern sw \<noteq> id' then (False, True) else (True, False))
         else
           let val = (if sw_matchValues sw then objString o' else id') in
           if \<not> glob_Match ex (sw_globPattern sw) val then (False, True) else (True, True))
      else (True, True))"

text \<open>\<open>strings.Join\<close>, for the comma-separated lists the writer prints.\<close>

fun joinWith :: "string \<Rightarrow> string list \<Rightarrow> string" where
  "joinWith sep [] = []"
| "joinWith sep [x] = x"
| "joinWith sep (x # y # ys) = x @ sep @ joinWith sep (y # ys)"

text \<open>The JSON \<open>fields\<close> member of one record, as \<open>writeObject\<close> builds it.\<close>

definition jsfields :: "extern \<Rightarrow> scanWriter \<Rightarrow> real list \<Rightarrow> real list \<Rightarrow> string" where
  \<open>jsfields ex sw flds nfields =
     (if hasFieldsOutput sw
      then
        (if sw_fullFields sw
         then
           (if length (sw_fmap sw) > 0
            then '',"fields":{''
                 @ joinWith '',''
                     (map (\<lambda>(field, idx). jsonString ex field @ '':'' @ FormatFloat ex (flds ! idx))
                        (filter (\<lambda>(field, idx). length flds > idx \<and> flds ! idx \<noteq> 0) (sw_fmap sw)))
                 @ ''}''
            else [])
         else
           (if length (sw_farr sw) > 0
            then '',"fields":['' @ joinWith '','' (map (FormatFloat ex) nfields) @ '']''
            else []))
      else [])\<close>

definition geohashOrEmpty :: "scanWriter \<Rightarrow> Object \<Rightarrow> string" where
  "geohashOrEmpty sw o' =
     (case Geohash o' (sint (sw_precision sw)) of None \<Rightarrow> [] | Some p \<Rightarrow> p)"

text \<open>The JSON branch of \<open>writeObject\<close>: one record appended to the buffer.\<close>

definition writeObjectJSON ::
  "extern \<Rightarrow> scanWriter \<Rightarrow> ScanWriterParams \<Rightarrow> real list \<Rightarrow> scanWriter" where
  \<open>writeObjectJSON ex sw opts nfields =
     (let sep = (if sw_once sw then '','' else []);
          body =
            (if sw_output sw = outputIDs then jsonString ex (p_id opts)
             else ''{"id":'' @ jsonString ex (p_id opts)
                  @ (case sw_output sw of
                       outputObjects \<Rightarrow> '',"object":'' @ objJSON (p_o opts)
                     | outputPoints \<Rightarrow>
                         '',"point":'' @ ExternalJSON ex (CalculatedPoint (p_o opts))
                     | outputHashes \<Rightarrow> '',"hash":"'' @ geohashOrEmpty sw (p_o opts) @ ''"''
                     | outputBounds \<Rightarrow>
                         '',"bounds":'' @ bboxExternalJSON ex (CalculatedBBox (p_o opts))
                     | _ \<Rightarrow> [])
                  @ jsfields ex sw (p_fields opts) nfields
                  @ (if p_distance opts > 0
                     then '',"distance":'' @ FormatFloat2 ex (p_distance opts) else [])
                  @ ''}'')
      in sw\<lparr> sw_once := True, sw_wr := sw_wr sw @ sep @ body \<rparr>)\<close>

text \<open>The RESP array of a point: the z coordinate is appended when it is not 0.\<close>

definition respPoint :: "Position \<Rightarrow> Value" where
  "respPoint point =
     (if Z point \<noteq> 0
      then ArrayValue [FloatValue (Y point), FloatValue (X point), FloatValue (Z point)]
      else ArrayValue [FloatValue (Y point), FloatValue (X point)])"

text \<open>The RESP branch of \<open>writeObject\<close>: one value appended to \<open>sw.values\<close>.\<close>

definition writeObjectRESP :: "extern \<Rightarrow> scanWriter \<Rightarrow> ScanWriterParams \<Rightarrow> scanWriter" where
  "writeObjectRESP ex sw opts =
     (if sw_output sw = outputIDs
      then sw\<lparr> sw_values := sw_values sw @ [StringValue (p_id opts)] \<rparr>
      else
        let vals0 = [StringValue (p_id opts)];
            vals1 = vals0 @
              (case sw_output sw of
                 outputObjects \<Rightarrow> [StringValue (objString (p_o opts))]
               | outputPoints \<Rightarrow> [respPoint (CalculatedPoint (p_o opts))]
               | outputHashes \<Rightarrow> [StringValue (geohashOrEmpty sw (p_o opts))]
               | outputBounds \<Rightarrow>
                   (let bbox = CalculatedBBox (p_o opts) in
                    [ArrayValue
                       [ArrayValue [FloatValue (Y (bbMin bbox)), FloatValue (X (bbMin bbox))],
                        ArrayValue [FloatValue (Y (bbMax bbox)), FloatValue (X (bbMax bbox))]]])
               | _ \<Rightarrow> []);
            fvs = orderFields ex (sw_fmap sw) (p_fields opts);
            vals2 = vals1 @
              (if hasFieldsOutput sw \<and> length fvs > 0
               then [ArrayValue
                       (concat (map (\<lambda>(f, v). [StringValue f, StringValue (FormatFloat ex v)]) fvs))]
               else []);
            vals3 = vals2 @ (if p_distance opts > 0 then [FloatValue (p_distance opts)] else [])
        in sw\<lparr> sw_values := sw_values sw @ [ArrayValue vals3] \<rparr>)"

text \<open>
  \<open>writeObject\<close> returns the writer and whether the iteration goes on. The mutex
  (\<open>noLock\<close>) has no effect on a single-threaded run.
\<close>

definition writeObject ::
  "extern \<Rightarrow> scanWriter \<Rightarrow> ScanWriterParams \<Rightarrow> (scanWriter \<times> bool) option" where
  "writeObject ex sw opts =
     (let (match, keepGoing) =
            (if \<not> p_ignoreGlobMatch opts then globMatch ex sw (p_id opts) (p_o opts)
             else (True, True))
      in
      if \<not> match then Some (sw, True)
      else
        (case fieldMatch sw (p_fields opts) (p_o opts) of
           None \<Rightarrow> None
         | Some (sw1, nfields, ok) \<Rightarrow>
             if \<not> ok then Some (sw1, True)
             else
               let sw2 = sw1\<lparr> sw_count := sw_count sw1 + 1 \<rparr> in
               if sw_count sw2 \<le> sw_cursor sw2 then Some (sw2, True)
               else if sw_output sw2 = outputCount
               then Some (sw2, sw_count sw2 < sw_limit sw2)
               else
                 let sw3 = (case sw_OutputType sw2 of
                              JSON \<Rightarrow> writeObjectJSON ex sw2 opts nfields
                            | RESP \<Rightarrow> writeObjectRESP ex sw2 opts
                            | _ \<Rightarrow> sw2);
                     sw4 = sw3\<lparr> sw_numberItems := sw_numberItems sw3 + 1 \<rparr>
                 in if sw_numberItems sw4 = sw_limit sw4
                    then Some (sw4\<lparr> sw_hitLimit := True \<rparr>, False)
                    else Some (sw4, keepGoing)))"

section \<open>Scan and search commands\<close>

text \<open>
  A collection iterator (\<open>Scan\<close>, \<open>Nearby\<close>, \<open>Within\<close>, \<open>NearestNeighbors\<close>, ...) calls
  its callback on each candidate in turn and stops when the callback returns false.
  \<open>iterate\<close> is that loop over the sequence of candidates the iterator presents; a
  panic of the callback ends it.
\<close>

fun iterate :: "('s \<Rightarrow> 'a \<Rightarrow> ('s \<times> bool) option) \<Rightarrow> 's \<Rightarrow> 'a list \<Rightarrow> 's option" where
  "iterate f s [] = Some s"
| "iterate f s (x # xs) =
     (case f s x of
        None \<Rightarrow> None
      | Some (s', keepGoing) \<Rightarrow> (if keepGoing then iterate f s' xs else Some s'))"

text \<open>
  The result of the argument parser, as far as the commands read it: the base tokens of
  \<open>searchScanBaseTokens\<close> and the fields of \<open>liveFenceSwitches\<close>. \<open>ulimit\<close> and
  \<open>usparse\<close> tell whether the request gave a \<open>LIMIT\<close> and a \<open>SPARSE\<close>.
\<close>

record liveFenceSwitches =
  s_key :: string
  s_output :: outputT
  s_precision :: uint64
  s_glob :: string
  s_cursor :: uint64
  s_limit :: uint64
  s_wheres :: "whereT list"
  s_whereins :: "whereinT list"
  s_whereevals :: "whereevalT list"
  s_nofields :: bool
  s_fence :: bool
  s_distance :: bool
  s_desc :: bool
  s_lat :: real
  s_lon :: real
  s_meters :: real
  s_cmd :: string
  s_knn :: bool
  s_ulimit :: bool
  s_usparse :: bool

text \<open>An error of a command: a message, or the switches of a fence query going live.\<close>

datatype cmdErr = Err string | GoingLive liveFenceSwitches

text \<open>\<open>liveFenceSwitches.Error\<close> and \<open>error.Error\<close>.\<close>

fun errString :: "cmdErr \<Rightarrow> string" where
  "errString (Err e) = e"
| "errString (GoingLive s) = ''going live''"

record Message =
  msg_Command :: string
  msg_Values :: "Value list"
  msg_ConnType :: Type
  msg_OutputType :: Type
  msg_Auth :: string

record FenceMeta =
  meta_Name :: string
  meta_Value :: string

record Hook =
  hook_Key :: string
  hook_Name :: string
  hook_Endpoints :: "string list"
  hook_Message :: Message
  hook_Fence :: liveFenceSwitches
  hook_ScanWriter :: scanWriter
  hook_Metas :: "FenceMeta list"
  hook_closed :: bool
  hook_opened :: bool
  hook_query :: string

record Config =
  requirePass :: string
  followHost :: string
  readOnly :: bool

record commandDetailsT =
  d_command :: string
  d_key :: string
  d_id :: string
  d_updated :: bool
  d_timestamp :: int
  d_parent :: bool
  d_children :: "Value list list"

text \<open>
  The controller: the configuration, the append-only file (its bytes; \<open>None\<close> when the
  file is not open), the collections in key order, the expiration index, the shrink state,
  the hook registry, the follower connections (each with whether it is open) and the stack
  of details for live queries. A time is a number of nanoseconds.
\<close>

record Controller =
  c_config :: Config
  c_aof :: "string option"
  c_aofsz :: int
  c_cols :: "(string \<times> Collection) list"
  c_expires :: "string \<rightharpoonup> (string \<rightharpoonup> int)"
  c_fcuponce :: bool
  c_shrinking :: bool
  c_shrinklog :: "string list list"
  c_hooks :: "(string \<times> Hook) list"
  c_hookcols :: "(string \<times> (string \<times> Hook) list) list"
  c_aofconnM :: "(nat \<times> bool) list"
  c_lstack :: "commandDetailsT list"

definition getCol :: "Controller \<Rightarrow> string \<Rightarrow> Collection option" where
  "getCol c key = map_of (c_cols c) key"

text \<open>
  Modelled from the spec: \<open>hasExpired\<close>, which the searches call and which is not among
  the sources. The expiration index maps a key to the deadlines of its ids (sections 3 and
  4.2); an entry is due when \<open>deadline \<le> now\<close>.
\<close>

definition hasExpired :: "Controller \<Rightarrow> int \<Rightarrow> string \<Rightarrow> string \<Rightarrow> bool" where
  "hasExpired c now key id' =
     (case c_expires c key of
        None \<Rightarrow> False
      | Some m \<Rightarrow> (case m id' of None \<Rightarrow> False | Some deadline \<Rightarrow> deadline \<le> now))"

text \<open>\<open>server.NOMessage\<close>: the empty simple string.\<close>

definition NOMessage :: Value where
  "NOMessage = SimpleStringValue []"

definition writeHead :: "extern \<Rightarrow> scanWriter \<Rightarrow> scanWriter" where
  \<open>writeHead ex sw =
     (case sw_OutputType sw of
        JSON \<Rightarrow>
          sw\<lparr> sw_wr := sw_wr sw
                 @ (if length (sw_farr sw) > 0 \<and> hasFieldsOutput sw
                    then '',"fields":['' @ joinWith '','' (map (jsonString ex) (sw_farr sw)) @ '']''
                    else [])
                 @ (case sw_output sw of
                      outputIDs \<Rightarrow> '',"ids":[''
                    | outputObjects \<Rightarrow> '',"objects":[''
                    | outputPoints \<Rightarrow> '',"points":[''
                    | outputBounds \<Rightarrow> '',"bounds":[''
                    | outputHashes \<Rightarrow> '',"hashes":[''
                    | _ \<Rightarrow> []) \<rparr>
      | _ \<Rightarrow> sw)\<close>

text \<open>
  What every command does around its iteration: create the writer, open the JSON object,
  write the head; and afterwards write the foot and build the response.
\<close>

definition openWriter ::
  "extern \<Rightarrow> Controller \<Rightarrow> Type \<Rightarrow> liveFenceSwitches \<Rightarrow> bool \<Rightarrow> string + scanWriter" where
  \<open>openWriter ex c outputType s matchValues =
     (case newScanWriter ex (getCol c (s_key s)) [] outputType (s_output s) (s_precision s)
             (s_glob s) matchValues (s_cursor s) (s_limit s) (s_wheres s) (s_whereins s)
             (s_whereevals s) (s_nofields s) of
        Inl e \<Rightarrow> Inl e
      | Inr sw \<Rightarrow>
          Inr (writeHead ex
                 (if outputType = JSON then sw\<lparr> sw_wr := sw_wr sw @ ''{"ok":true'' \<rparr> else sw)))\<close>

definition closeWriter :: "Type \<Rightarrow> string \<Rightarrow> scanWriter \<Rightarrow> Value" where
  \<open>closeWriter outputType elapsed sw =
     (let sw' = writeFoot sw in
      if outputType = JSON
      then StringValue (sw_wr sw' @ '',"elapsed":"'' @ elapsed @ [CHR 0x22] @ ''}'')
      else sw_respOut sw')\<close>







text \<open>
  The callback \<open>iter\<close> of \<open>cmdNearby\<close>: an expired item is passed over; \<open>dist\<close> is the
  distance the caller already knows, if any.
\<close>

definition nearbyIter ::
  "extern \<Rightarrow> Controller \<Rightarrow> int \<Rightarrow> liveFenceSwitches \<Rightarrow> scanWriter \<Rightarrow> item \<times> real option
    \<Rightarrow> (scanWriter \<times> bool) option" where
  "nearbyIter ex c now s sw x =
     (case x of ((id', o', flds), dst) \<Rightarrow>
        if hasExpired c now (s_key s) id' then Some (sw, True)
        else
          let distance =
                (if s_distance s
                 then (case dst of
                         Some d \<Rightarrow> d
                       | None \<Rightarrow> DistanceTo ex (CalculatedPoint o')
                                   \<lparr> X = s_lon s, Y = s_lat s, Z = 0 \<rparr>)
                 else 0)
          in writeObject ex sw \<lparr> p_id = id', p_o = o', p_fields = flds, p_distance = distance,
                                  p_noLock = True, p_ignoreGlobMatch = s_knn s \<rparr>)"

record iterItem =
  it_id :: string
  it_o :: Object
  it_fields :: "real list"
  it_dist :: real

text \<open>
  The first loop of \<open>nearestNeighbors\<close>: the callback given to \<open>NearestNeighbors\<close>,
  run over the candidates in the order the index presents them. \<open>limit\<close> is the Go \<open>int\<close>
  (64 bits) \<open>int(sw.cursor + sw.limit)\<close>.
\<close>

fun knnCollect ::
  "extern \<Rightarrow> real \<Rightarrow> real \<Rightarrow> int \<Rightarrow> scanWriter \<Rightarrow> iterItem list \<Rightarrow> item list
    \<Rightarrow> (scanWriter \<times> iterItem list) option" where
  "knnCollect ex lat lon limit sw items [] = Some (sw, items)"
| "knnCollect ex lat lon limit sw items ((id', o', flds) # cs) =
     (case fieldMatch sw flds o' of
        None \<Rightarrow> None
      | Some (sw1, nf, ok) \<Rightarrow>
          if \<not> ok then knnCollect ex lat lon limit sw1 items cs
          else
            (case globMatch ex sw1 id' o' of (match, keepGoing) \<Rightarrow>
               if \<not> match then knnCollect ex lat lon limit sw1 items cs
               else
                 let dst = DistanceTo ex (CalculatedPoint o') \<lparr> X = lon, Y = lat, Z = 0 \<rparr>;
                     items' = items @ [\<lparr> it_id = id', it_o = o', it_fields = flds,
                                          it_dist = dst \<rparr>]
                 in if \<not> keepGoing then Some (sw1, items')
                    else if int (length items') < limit
                    then knnCollect ex lat lon limit sw1 items' cs
                    else Some (sw1, items')))"

text \<open>
  \<open>sort.Slice\<close> by ascending distance. Go's sort is not stable; the model fixes the order
  of items at equal distance.
\<close>

definition sortByDist :: "iterItem list \<Rightarrow> iterItem list" where
  "sortByDist items = sort_key it_dist items"

definition knnLimit :: "scanWriter \<Rightarrow> int" where
  "knnLimit sw = sint (sw_cursor sw + sw_limit sw)"

definition nearestNeighbors ::
  "extern \<Rightarrow> scanWriter \<Rightarrow> real \<Rightarrow> real
    \<Rightarrow> (scanWriter \<Rightarrow> item \<times> real option \<Rightarrow> (scanWriter \<times> bool) option)
    \<Rightarrow> item list \<Rightarrow> scanWriter option" where
  "nearestNeighbors ex sw lat lon iter cands =
     (case knnCollect ex lat lon (knnLimit sw) sw [] cands of
        None \<Rightarrow> None
      | Some (sw1, items) \<Rightarrow>
          iterate iter sw1
            (map (\<lambda>it. ((it_id it, it_o it, it_fields it), Some (it_dist it)))
               (sortByDist items)))"

text \<open>
  The case \<open>point\<close> of \<open>cmdSearchArgs\<close>. \<open>t\<close> carries the base tokens that
  \<open>parseSearchScanBaseTokens\<close> returned; the other fields of \<open>s\<close> start as zero values.
  \<open>slat\<close> and \<open>slon\<close> are the two tokens after \<open>point\<close>, \<open>smeters\<close> is the third
  token if there is one, and no token follows. Without a radius the search is a
  nearest-neighbour search, which \<open>NEARBY\<close> allows when the request has a \<open>LIMIT\<close> and no
  \<open>SPARSE\<close>.
\<close>

definition searchArgsPoint ::
  "extern \<Rightarrow> string \<Rightarrow> liveFenceSwitches \<Rightarrow> string \<Rightarrow> string \<Rightarrow> string option
    \<Rightarrow> string + liveFenceSwitches" where
  "searchArgsPoint ex cmd t slat slon smeters =
     (let s = t\<lparr> s_lat := 0, s_lon := 0, s_meters := - 1, s_cmd := [], s_knn := False \<rparr>;
          latlon = (\<lambda>s1 k.
            (case ParseFloat ex slat of
               None \<Rightarrow> Inl (errInvalidArgument ex slat)
             | Some lat \<Rightarrow>
                 (case ParseFloat ex slon of
                    None \<Rightarrow> Inl (errInvalidArgument ex slon)
                  | Some lon \<Rightarrow> k (s1\<lparr> s_lat := lat, s_lon := lon \<rparr>))))
      in
      (case (case smeters of None \<Rightarrow> None | Some m \<Rightarrow> if m = [] then None else Some m) of
         None \<Rightarrow>
           let s1 = (if cmd = ''nearby''
                     then s\<lparr> s_knn := s_ulimit s \<and> \<not> s_usparse s \<rparr> else s)
           in if \<not> s_knn s1 then Inl (errInvalidArgument ex slat) else latlon s1 Inr
       | Some m \<Rightarrow>
           latlon s
             (\<lambda>s2. case ParseFloat ex m of
                     None \<Rightarrow> Inl (errInvalidArgument ex m)
                   | Some meters \<Rightarrow>
                       if meters < 0 then Inl (errInvalidArgument ex m)
                       else Inr (s2\<lparr> s_meters := meters \<rparr>))))"

text \<open>
  \<open>cmdNearby\<close>, after its arguments are parsed (\<open>perr\<close> is the parser's error). \<open>cands\<close>
  is what \<open>NearestNeighbors\<close> presents in the KNN mode and what \<open>Nearby\<close> presents
  otherwise.
\<close>

definition nearbyBody ::
  "extern \<Rightarrow> Controller \<Rightarrow> int \<Rightarrow> liveFenceSwitches \<Rightarrow> scanWriter \<Rightarrow> item list
    \<Rightarrow> scanWriter option" where
  "nearbyBody ex c now s sw cands =
     (case sw_col sw of
        None \<Rightarrow> Some sw
      | Some cl \<Rightarrow>
          if s_knn s
          then nearestNeighbors ex sw (s_lat s) (s_lon s) (nearbyIter ex c now s) cands
          else iterate (nearbyIter ex c now s) sw (map (\<lambda>x. (x, None)) cands))"

definition cmdNearby ::
  "extern \<Rightarrow> Controller \<Rightarrow> int \<Rightarrow> Type \<Rightarrow> liveFenceSwitches \<Rightarrow> string option \<Rightarrow> item list
    \<Rightarrow> string \<Rightarrow> (Value \<times> cmdErr option) option" where
  "cmdNearby ex c now outputType s0 perr cands elapsed =
     (case perr of
        Some e \<Rightarrow> Some (NOMessage, Some (Err e))
      | None \<Rightarrow>
          let s = s0\<lparr> s_cmd := ''nearby'' \<rparr> in
          if s_fence s then Some (NOMessage, Some (GoingLive s))
          else
            (case openWriter ex c outputType s False of
               Inl e \<Rightarrow> Some (NOMessage, Some (Err e))
             | Inr sw \<Rightarrow>
                 (case nearbyBody ex c now s sw cands of
                    None \<Rightarrow> None
                  | Some sw' \<Rightarrow> Some (closeWriter outputType elapsed sw', None))))"


text \<open>The callback of \<open>cmdWithinOrIntersects\<close>, the same for both commands.\<close>

definition withinIter ::
  "extern \<Rightarrow> Controller \<Rightarrow> int \<Rightarrow> liveFenceSwitches \<Rightarrow> scanWriter \<Rightarrow> item
    \<Rightarrow> (scanWriter \<times> bool) option" where
  "withinIter ex c now s sw x =
     (case x of (id', o', flds) \<Rightarrow>
        if hasExpired c now (s_key s) id' then Some (sw, True)
        else writeObject ex sw \<lparr> p_id = id', p_o = o', p_fields = flds, p_distance = 0,
                                  p_noLock = True, p_ignoreGlobMatch = False \<rparr>)"

definition withinBody ::
  "extern \<Rightarrow> Controller \<Rightarrow> int \<Rightarrow> string \<Rightarrow> liveFenceSwitches \<Rightarrow> scanWriter \<Rightarrow> item list
    \<Rightarrow> scanWriter option" where
  "withinBody ex c now cmd s sw cands =
     (case sw_col sw of
        None \<Rightarrow> Some sw
      | Some cl \<Rightarrow>
          if cmd = ''within'' then iterate (withinIter ex c now s) sw cands
          else if cmd = ''intersects'' then iterate (withinIter ex c now s) sw cands
          else Some sw)"

text \<open>
  \<open>cmdWithinOrIntersects\<close>, after its arguments are parsed. \<open>cands\<close> is what \<open>Within\<close>
  or \<open>Intersects\<close> presents.
\<close>

definition cmdWithinOrIntersects ::
  "extern \<Rightarrow> Controller \<Rightarrow> int \<Rightarrow> Type \<Rightarrow> string \<Rightarrow> liveFenceSwitches \<Rightarrow> string option
    \<Rightarrow> item list \<Rightarrow> string \<Rightarrow> (Value \<times> cmdErr option) option" where
  "cmdWithinOrIntersects ex c now outputType cmd s0 perr cands elapsed =
     (case perr of
        Some e \<Rightarrow> Some (NOMessage, Some (Err e))
      | None \<Rightarrow>
          let s = s0\<lparr> s_cmd := cmd \<rparr> in
          if s_fence s then Some (NOMessage, Some (GoingLive s))
          else
            (case openWriter ex c outputType s False of
               Inl e \<Rightarrow> Some (NOMessage, Some (Err e))
             | Inr sw \<Rightarrow>
                 (case withinBody ex c now cmd s sw cands of
                    None \<Rightarrow> None
                  | Some sw' \<Rightarrow> Some (closeWriter outputType elapsed sw', None))))"

definition cmdWithin ::
  "extern \<Rightarrow> Controller \<Rightarrow> int \<Rightarrow> Type \<Rightarrow> liveFenceSwitches \<Rightarrow> string option
    \<Rightarrow> item list \<Rightarrow> string \<Rightarrow> (Value \<times> cmdErr option) option" where
  "cmdWithin ex c now outputType = cmdWithinOrIntersects ex c now outputType ''within''"

definition cmdIntersects ::
  "extern \<Rightarrow> Controller \<Rightarrow> int \<Rightarrow> Type \<Rightarrow> liveFenceSwitches \<Rightarrow> string option
    \<Rightarrow> item list \<Rightarrow> string \<Rightarrow> (Value \<times> cmdErr option) option" where
  "cmdIntersects ex c now outputType = cmdWithinOrIntersects ex c now outputType ''intersects''"

section \<open>Hooks\<close>

text \<open>
  \<open>resp.Value.Equals\<close> compares the wire forms of two values; on the tokens of a command
  that is the equality of the values.
\<close>

definition valueEquals :: "Value \<Rightarrow> Value \<Rightarrow> bool" where
  "valueEquals a b = (a = b)"

text \<open>
  The two loops of \<open>Hook.Equals\<close>, over the indices of the first list. They run after
  the lengths were found equal; an index beyond the second list would be a panic.
\<close>

fun endpointsEqual :: "string list \<Rightarrow> string list \<Rightarrow> bool option" where
  "endpointsEqual [] ys = Some True"
| "endpointsEqual (x # xs) [] = None"
| "endpointsEqual (x # xs) (y # ys) = (if x \<noteq> y then Some False else endpointsEqual xs ys)"

fun metasEqual :: "FenceMeta list \<Rightarrow> FenceMeta list \<Rightarrow> bool option" where
  "metasEqual [] ys = Some True"
| "metasEqual (x # xs) [] = None"
| "metasEqual (x # xs) (y # ys) =
     (if meta_Name x \<noteq> meta_Name y \<or> meta_Value x \<noteq> meta_Value y then Some False
      else metasEqual xs ys)"

definition Equals :: "Hook \<Rightarrow> Hook \<Rightarrow> bool option" where
  "Equals h hook =
     (if hook_Key h \<noteq> hook_Key hook \<or> hook_Name h \<noteq> hook_Name hook
         \<or> length (hook_Endpoints h) \<noteq> length (hook_Endpoints hook)
         \<or> length (hook_Metas h) \<noteq> length (hook_Metas hook)
      then Some False
      else
        (case endpointsEqual (hook_Endpoints h) (hook_Endpoints hook) of
           None \<Rightarrow> None
         | Some False \<Rightarrow> Some False
         | Some True \<Rightarrow>
             (case metasEqual (hook_Metas h) (hook_Metas hook) of
                None \<Rightarrow> None
              | Some False \<Rightarrow> Some False
              | Some True \<Rightarrow>
                  Some (valueEquals (ArrayValue (msg_Values (hook_Message h)))
                                    (ArrayValue (msg_Values (hook_Message hook)))))))"

text \<open>
  \<open>Open\<close>, \<open>Close\<close> and \<open>Signal\<close> act on the hook and wake or start its manager task.
  The model returns the hook and records the call as an event.
\<close>

definition hookOpen :: "extern \<Rightarrow> Hook \<Rightarrow> Hook" where
  \<open>hookOpen ex h =
     (if hook_opened h then h
      else h\<lparr> hook_opened := True,
               hook_query := ''{"hook":'' @ json_Marshal ex (hook_Name h) @ ''}'' \<rparr>)\<close>

definition hookClose :: "Hook \<Rightarrow> Hook" where
  "hookClose h = (if hook_closed h then h else h\<lparr> hook_closed := True \<rparr>)"

datatype hookEvent = Signaled Hook | Closed Hook | Opened Hook

text \<open>\<open>sort.Sort(hookMetaByName(metas))\<close> over the entries of \<open>metaMap\<close>, whose keys differ.\<close>

definition sortedMetas :: "(string \<times> string) list \<Rightarrow> FenceMeta list" where
  "sortedMetas metaMap =
     sort_key meta_Name (map (\<lambda>(k, v). \<lparr> meta_Name = k, meta_Value = v \<rparr>) metaMap)"

text \<open>The zero value of \<open>commandDetailsT\<close>.\<close>

definition noDetails :: commandDetailsT where
  "noDetails = \<lparr> d_command = [], d_key = [], d_id = [], d_updated = False, d_timestamp = 0,
                  d_parent = False, d_children = [] \<rparr>"

text \<open>Removing a hook from the registry, as \<open>cmdSetHook\<close> and \<open>cmdDelHook\<close> do.\<close>

definition removeHook :: "Controller \<Rightarrow> Hook \<Rightarrow> Controller" where
  "removeHook c h =
     (let hookcols' =
            (case map_of (c_hookcols c) (hook_Key h) of
               None \<Rightarrow> c_hookcols c
             | Some hm \<Rightarrow>
                 AList.update (hook_Key h) (AList.delete (hook_Name h) hm) (c_hookcols c))
      in c\<lparr> c_hookcols := hookcols', c_hooks := AList.delete (hook_Name h) (c_hooks c) \<rparr>)"

text \<open>
  \<open>cmdSetHook\<close>, from the point where the tokens are parsed: \<open>name\<close>, the validated
  \<open>endpoints\<close>, the command word \<open>cmdlc\<close>, the tokens \<open>commandvs\<close> of the fence command,
  the \<open>metaMap\<close> and the switches \<open>s\<close> that \<open>cmdSearchArgs\<close> returned. \<open>okmsg\<close> is the
  value of \<open>server.OKMessage\<close>. The result \<open>None\<close> is a panic.
\<close>

definition cmdSetHook ::
  "extern \<Rightarrow> Controller \<Rightarrow> Message \<Rightarrow> Value \<Rightarrow> int \<Rightarrow> string \<Rightarrow> string list \<Rightarrow> string
    \<Rightarrow> Value list \<Rightarrow> (string \<times> string) list \<Rightarrow> liveFenceSwitches
    \<Rightarrow> (Value \<times> commandDetailsT \<times> cmdErr option \<times> Controller \<times> hookEvent list) option" where
  "cmdSetHook ex c msg okmsg now name endpoints cmdlc commandvs metaMap s0 =
     (if \<not> s_fence s0 then Some (NOMessage, noDetails, Some (Err ''missing FENCE argument''), c, [])
      else
        let s = s0\<lparr> s_cmd := cmdlc \<rparr>;
            cmsg = msg\<lparr> msg_Values := commandvs, msg_Command := cmdlc \<rparr>;
            metas = sortedMetas metaMap
        in
        (case newScanWriter ex (getCol c (s_key s)) [] (msg_OutputType cmsg) (s_output s)
                (s_precision s) (s_glob s) False (s_cursor s) (s_limit s) (s_wheres s)
                (s_whereins s) (s_whereevals s) (s_nofields s) of
           Inl e \<Rightarrow> Some (NOMessage, noDetails, Some (Err e), c, [])
         | Inr sw \<Rightarrow>
             let hook = \<lparr> hook_Key = s_key s, hook_Name = name, hook_Endpoints = endpoints,
                          hook_Message = cmsg, hook_Fence = s, hook_ScanWriter = sw,
                          hook_Metas = metas, hook_closed = False, hook_opened = False,
                          hook_query = [] \<rparr>;
                 install = (\<lambda>c1 evs.
                    let d = noDetails\<lparr> d_updated := True, d_timestamp := now \<rparr>;
                        hook' = hookOpen ex hook;
                        hm = (case map_of (c_hookcols c1) (hook_Key hook) of
                                None \<Rightarrow> [] | Some m \<Rightarrow> m);
                        c2 = c1\<lparr> c_hooks := AList.update name hook' (c_hooks c1),
                                  c_hookcols := AList.update (hook_Key hook)
                                                  (AList.update name hook' hm) (c_hookcols c1) \<rparr>;
                        res = (case msg_OutputType msg of
                                 JSON \<Rightarrow> okmsg
                               | RESP \<Rightarrow> IntegerValue 1
                               | _ \<Rightarrow> NOMessage)
                    in Some (res, d, None, c2, evs @ [Opened hook']))
             in
             (case map_of (c_hooks c) name of
                None \<Rightarrow> install c []
              | Some h \<Rightarrow>
                  (case Equals h hook of
                     None \<Rightarrow> None
                   | Some True \<Rightarrow>
                       (case msg_OutputType msg of
                          JSON \<Rightarrow> Some (okmsg, noDetails, None, c, [Signaled h])
                        | RESP \<Rightarrow> Some (IntegerValue 0, noDetails, None, c, [Signaled h])
                        | _ \<Rightarrow> install (removeHook c h) [Signaled h, Closed (hookClose h)])
                   | Some False \<Rightarrow> install (removeHook c h) [Closed (hookClose h)]))))"


section \<open>Shrinking the append-only file\<close>

definition maxkeys :: nat where
  "maxkeys = 8"

definition maxids :: nat where
  "maxids = 32"

definition maxchunk :: nat where
  "maxchunk = 4 * 1024 * 1024"

text \<open>
  The outcome of each file operation of a shrink: the creation of the shrink file, its
  writes and syncs in the order they are issued, and the operations of the swap.
\<close>

record shrinkIO =
  createOK :: bool
  writeOK :: "nat \<Rightarrow> bool"
  syncOK :: "nat \<Rightarrow> bool"
  closeLiveOK :: bool
  closeNewOK :: bool
  renameBakOK :: bool
  renameNewOK :: bool
  openOK :: bool
  seekOK :: bool

text \<open>A multi-bulk record: \<open>*n\<close>, then each value as \<open>$len\<close> and the bytes.\<close>

definition crlf :: string where
  "crlf = [CHR 0x0D, CHR 0x0A]"

definition encodeRecord :: "string list \<Rightarrow> string" where
  "encodeRecord vals =
     ''*'' @ FormatUint (length vals) @ crlf
     @ concat (map (\<lambda>v. ''$'' @ FormatUint (length v) @ crlf @ v @ crlf) vals)"

text \<open>
  The \<open>FIELD\<close> tokens of an entry, from index \<open>i\<close> on. A non-zero field beyond the
  field names is an index panic (\<open>None\<close>).
\<close>

fun fieldTokens :: "extern \<Rightarrow> string list \<Rightarrow> nat \<Rightarrow> real list \<Rightarrow> string list option" where
  "fieldTokens ex fnames i [] = Some []"
| "fieldTokens ex fnames i (fvalue # fs) =
     (if fvalue \<noteq> 0
      then (if i < length fnames
            then (case fieldTokens ex fnames (Suc i) fs of
                    None \<Rightarrow> None
                  | Some toks \<Rightarrow> Some ([''field'', fnames ! i, FormatFloat ex fvalue] @ toks))
            else None)
      else fieldTokens ex fnames (Suc i) fs)"

text \<open>The \<open>EX\<close> tokens: the seconds left, rounded down to a tenth, when any are left.\<close>

definition exTokens :: "extern \<Rightarrow> (string \<rightharpoonup> int) option \<Rightarrow> int \<Rightarrow> string \<Rightarrow> string list" where
  "exTokens ex exm now id' =
     (case exm of
        None \<Rightarrow> []
      | Some m \<Rightarrow>
          (case m id' of
             None \<Rightarrow> []
           | Some at' \<Rightarrow>
               let expires = at' - now in
               if expires > 0
               then [''ex'',
                     FormatFloat ex
                       (of_int \<lfloor>real_of_int expires / 1000000000 * 10\<rfloor> / 10)]
               else []))"

definition objTokens :: "extern \<Rightarrow> Object \<Rightarrow> string list" where
  "objTokens ex obj =
     (if isSimplePoint obj
      then [''point'', FormatFloat ex (Y (CalculatedPoint obj)),
            FormatFloat ex (X (CalculatedPoint obj))]
      else if IsGeometry obj then [''object'', objJSON obj]
      else [''string'', objString obj])"

text \<open>The \<open>SET\<close> command that restores one entry.\<close>

definition setValues ::
  "extern \<Rightarrow> string list \<Rightarrow> (string \<rightharpoonup> int) option \<Rightarrow> int \<Rightarrow> string \<Rightarrow> item
    \<Rightarrow> string list option" where
  "setValues ex fnames exm now key x =
     (case x of (id', obj, flds) \<Rightarrow>
        (case fieldTokens ex fnames 0 flds of
           None \<Rightarrow> None
         | Some ftoks \<Rightarrow>
             Some ([''set'', key, id'] @ ftoks @ exTokens ex exm now id' @ objTokens ex obj)))"

text \<open>The callback of \<open>ScanGreaterOrEqual\<close> over one batch: each entry appended to the buffer.\<close>

fun copyBatch ::
  "extern \<Rightarrow> string list \<Rightarrow> (string \<rightharpoonup> int) option \<Rightarrow> int \<Rightarrow> string \<Rightarrow> string \<Rightarrow> item list
    \<Rightarrow> string option" where
  "copyBatch ex fnames exm now key aofbuf [] = Some aofbuf"
| "copyBatch ex fnames exm now key aofbuf (x # xs) =
     (case setValues ex fnames exm now key x of
        None \<Rightarrow> None
      | Some vals \<Rightarrow> copyBatch ex fnames exm now key (aofbuf @ encodeRecord vals) xs)"

text \<open>
  The entries of a collection in the batches the inner loop reads: \<open>maxids\<close> entries at
  a time, and one empty batch for an empty collection.
\<close>

function batches :: "nat \<Rightarrow> 'a list \<Rightarrow> 'a list list" where
  "batches n xs =
     (if n = 0 \<or> length xs \<le> n then [xs] else take n xs # batches n (drop n xs))"
  by pat_completeness auto
termination
  by (relation "measure (\<lambda>(n, xs). length xs)") auto

declare batches.simps [simp del]

text \<open>
  The state of the copy: the buffer, the bytes written to the shrink file and the numbers
  of writes and syncs issued so far. A step of the copy ends with the state, with an I/O
  error (the shrink is given up) or with a panic.
\<close>

record copyState =
  cs_buf :: string
  cs_file :: string
  cs_writes :: nat
  cs_syncs :: nat

datatype 'a step = Ok 'a | IOError | Panicked

definition fileWrite :: "shrinkIO \<Rightarrow> copyState \<Rightarrow> copyState step" where
  "fileWrite io st =
     (if writeOK io (cs_writes st)
      then Ok (st\<lparr> cs_file := cs_file st @ cs_buf st, cs_buf := [],
                   cs_writes := Suc (cs_writes st) \<rparr>)
      else IOError)"

definition fileSync :: "shrinkIO \<Rightarrow> copyState \<Rightarrow> copyState step" where
  "fileSync io st =
     (if syncOK io (cs_syncs st) then Ok (st\<lparr> cs_syncs := Suc (cs_syncs st) \<rparr>) else IOError)"

text \<open>The inner loop over the batches of one key.\<close>

fun copyKey ::
  "extern \<Rightarrow> shrinkIO \<Rightarrow> string list \<Rightarrow> (string \<rightharpoonup> int) option \<Rightarrow> int \<Rightarrow> string \<Rightarrow> copyState
    \<Rightarrow> item list list \<Rightarrow> copyState step" where
  "copyKey ex io fnames exm now key st [] = Ok st"
| "copyKey ex io fnames exm now key st (b # bs) =
     (case copyBatch ex fnames exm now key (cs_buf st) b of
        None \<Rightarrow> Panicked
      | Some buf \<Rightarrow>
          let st1 = st\<lparr> cs_buf := buf \<rparr> in
          if length buf > maxchunk
          then (case fileWrite io st1 of
                  Ok st2 \<Rightarrow> copyKey ex io fnames exm now key st2 bs
                | IOError \<Rightarrow> IOError
                | Panicked \<Rightarrow> Panicked)
          else copyKey ex io fnames exm now key st1 bs)"

text \<open>
  The outer loop over the keys, in key order. Without writers in between, the batches of
  \<open>maxkeys\<close> keys are the keys one after the other.
\<close>

fun copyKeys ::
  "extern \<Rightarrow> shrinkIO \<Rightarrow> Controller \<Rightarrow> int \<Rightarrow> copyState \<Rightarrow> string list \<Rightarrow> copyState step" where
  "copyKeys ex io c now st [] = Ok st"
| "copyKeys ex io c now st (key # keys) =
     (case getCol c key of
        None \<Rightarrow>
          (if length (cs_buf st) > maxchunk
           then (case fileWrite io st of
                   Ok st2 \<Rightarrow> copyKeys ex io c now st2 keys
                 | IOError \<Rightarrow> IOError
                 | Panicked \<Rightarrow> Panicked)
           else copyKeys ex io c now st keys)
      | Some cl \<Rightarrow>
          (case copyKey ex io (FieldArr cl) (c_expires c key) now key st
                  (batches maxids (col_items cl)) of
             Ok st2 \<Rightarrow> copyKeys ex io c now st2 keys
           | IOError \<Rightarrow> IOError
           | Panicked \<Rightarrow> Panicked))"

text \<open>The \<open>SETHOOK\<close> command that restores one hook, and the loop over the sorted names.\<close>

definition hookValues :: "extern \<Rightarrow> string \<Rightarrow> Hook \<Rightarrow> string list" where
  "hookValues ex name hook =
     [''sethook'', name, joinWith '','' (hook_Endpoints hook)]
     @ map (value_String ex) (msg_Values (hook_Message hook))"

fun copyHooks :: "extern \<Rightarrow> Controller \<Rightarrow> string \<Rightarrow> string list \<Rightarrow> string" where
  "copyHooks ex c aofbuf [] = aofbuf"
| "copyHooks ex c aofbuf (name # names) =
     (case map_of (c_hooks c) name of
        None \<Rightarrow> copyHooks ex c aofbuf names
      | Some hook \<Rightarrow> copyHooks ex c (aofbuf @ encodeRecord (hookValues ex name hook)) names)"

text \<open>
  The rewrite proper, the function whose error \<open>aofshrink\<close> logs. It ends with the new
  controller, with an error before the swap (the shrink is given up and the live file is
  untouched), with a fatal log call (the process exits) or with a panic.
\<close>

datatype rewriteResult = Swapped Controller | GivenUp | FatalExit string | RewritePanic

definition shrinkSwap :: "shrinkIO \<Rightarrow> Controller \<Rightarrow> string \<Rightarrow> rewriteResult" where
  "shrinkSwap io c file =
     (if \<not> closeLiveOK io then FatalExit ''shrink live aof close fatal operation''
      else if \<not> closeNewOK io then FatalExit ''shrink new aof close fatal operation''
      else if \<not> renameBakOK io then FatalExit ''shrink backup fatal operation''
      else if \<not> renameNewOK io then FatalExit ''shrink rename fatal operation''
      else if \<not> openOK io then FatalExit ''shrink openfile fatal operation''
      else if \<not> seekOK io then FatalExit ''shrink seek end fatal operation''
      else Swapped (c\<lparr> c_aof := Some file, c_aofsz := int (length file),
                       c_aofconnM := map (\<lambda>(conn, opn). (conn, False)) (c_aofconnM c) \<rparr>))"

definition rewrite :: "extern \<Rightarrow> shrinkIO \<Rightarrow> int \<Rightarrow> Controller \<Rightarrow> rewriteResult" where
  "rewrite ex io now c =
     (if \<not> createOK io then GivenUp
      else
        (case copyKeys ex io c now \<lparr> cs_buf = [], cs_file = [], cs_writes = 0, cs_syncs = 0 \<rparr>
                (map fst (c_cols c)) of
           IOError \<Rightarrow> GivenUp
         | Panicked \<Rightarrow> RewritePanic
         | Ok st1 \<Rightarrow>
             let st2 = st1\<lparr> cs_buf := copyHooks ex c (cs_buf st1) (sort (map fst (c_hooks c))) \<rparr>
             in
             (case (if length (cs_buf st2) > 0 then fileWrite io st2 else Ok st2) of
                IOError \<Rightarrow> GivenUp
              | Panicked \<Rightarrow> RewritePanic
              | Ok st3 \<Rightarrow>
                  (case fileSync io st3 of
                     IOError \<Rightarrow> GivenUp
                   | Panicked \<Rightarrow> RewritePanic
                   | Ok st4 \<Rightarrow>
                       (case fileWrite io
                               (st4\<lparr> cs_buf := concat (map encodeRecord (c_shrinklog c)) \<rparr>) of
                          IOError \<Rightarrow> GivenUp
                        | Panicked \<Rightarrow> RewritePanic
                        | Ok st5 \<Rightarrow>
                            (case fileSync io st5 of
                               IOError \<Rightarrow> GivenUp
                             | Panicked \<Rightarrow> RewritePanic
                             | Ok st6 \<Rightarrow> shrinkSwap io c (cs_file st6)))))))"

text \<open>
  \<open>aofshrink\<close> in its three parts: the guarded start under the lock, the rewrite, and
  the deferred end. \<open>aofshrinkBegin\<close> returns whether the shrink has started.
\<close>

definition aofshrinkBegin :: "Controller \<Rightarrow> Controller \<times> bool" where
  "aofshrinkBegin c =
     (if c_aof c = None then (c, False)
      else if c_shrinking c then (c, False)
      else (c\<lparr> c_shrinking := True, c_shrinklog := [] \<rparr>, True))"

definition aofshrinkEnd :: "Controller \<Rightarrow> Controller" where
  "aofshrinkEnd c = c\<lparr> c_shrinking := False, c_shrinklog := [] \<rparr>"

datatype shrinkResult = Returned Controller | Fatal string | Panic

definition aofshrink :: "extern \<Rightarrow> shrinkIO \<Rightarrow> int \<Rightarrow> Controller \<Rightarrow> shrinkResult" where
  "aofshrink ex io now c =
     (case aofshrinkBegin c of
        (c1, False) \<Rightarrow> Returned c1
      | (c1, True) \<Rightarrow>
          (case rewrite ex io now c1 of
             Swapped c2 \<Rightarrow> Returned (aofshrinkEnd c2)
           | GivenUp \<Rightarrow> Returned (aofshrinkEnd c1)
           | FatalExit e \<Rightarrow> Fatal e
           | RewritePanic \<Rightarrow> Panic))"

section \<open>The command router\<close>

record Conn =
  Authenticated :: bool

text \<open>
  What a handler returns: the response, the details of the change, the error, the
  controller as the handler leaves it, and the bytes the handler itself wrote to the client.
\<close>

type_synonym handlerResult = "Value \<times> commandDetailsT \<times> cmdErr option \<times> Controller \<times> string"

text \<open>
  The handlers are outside the router: \<open>hs name\<close> is the handler method \<open>name\<close> of the
  controller. A run ends normally, with a fatal log call (the process exits) or with a panic.
\<close>

type_synonym handlers = "string \<Rightarrow> Message \<Rightarrow> Conn \<Rightarrow> Controller \<Rightarrow> handlerResult"

datatype 'a outcome = Normal 'a | Exit string | Crash

text \<open>A handler that returns no details leaves \<open>d\<close> at its zero value.\<close>

definition withDetails :: "handlers \<Rightarrow> string \<Rightarrow> Message \<Rightarrow> Conn \<Rightarrow> Controller \<Rightarrow> handlerResult outcome" where
  "withDetails hs name msg conn c = Normal (hs name msg conn c)"

definition noDetailsOf :: "handlers \<Rightarrow> string \<Rightarrow> Message \<Rightarrow> Conn \<Rightarrow> Controller \<Rightarrow> handlerResult outcome" where
  "noDetailsOf hs name msg conn c =
     (case hs name msg conn c of (res, d, err, c', out) \<Rightarrow> Normal (res, noDetails, err, c', out))"

definition unknownCommand :: "extern \<Rightarrow> Message \<Rightarrow> Controller \<Rightarrow> handlerResult outcome" where
  "unknownCommand ex msg c =
     (case msg_Values msg of
        [] \<Rightarrow> Crash
      | v # vs \<Rightarrow>
          Normal (ZeroValue, noDetails,
                  Some (Err (''unknown command '' @ [CHR 0x27] @ value_String ex v @ [CHR 0x27])),
                  c, []))"

text \<open>
  \<open>Controller.command\<close>, without the rewriting of \<open>config\<close> and \<open>script\<close>. \<open>devMode\<close> is
  \<open>core.DevMode\<close>; \<open>okmsg\<close> is the value of \<open>server.OKMessage\<close>. \<open>AOFSHRINK\<close> starts the
  shrink as a task of its own and answers at once.
\<close>

definition command1 ::
  "extern \<Rightarrow> handlers \<Rightarrow> bool \<Rightarrow> Value \<Rightarrow> Message \<Rightarrow> Conn \<Rightarrow> Controller
    \<Rightarrow> handlerResult outcome" where
  "command1 ex hs devMode okmsg msg conn c =
     (let cmd = msg_Command msg in
      if cmd = ''set'' then withDetails hs ''cmdSet'' msg conn c
      else if cmd = ''fset'' then withDetails hs ''cmdFset'' msg conn c
      else if cmd = ''del'' then withDetails hs ''cmdDel'' msg conn c
      else if cmd = ''pdel'' then withDetails hs ''cmdPdel'' msg conn c
      else if cmd = ''drop'' then withDetails hs ''cmdDrop'' msg conn c
      else if cmd = ''flushdb'' then withDetails hs ''cmdFlushDB'' msg conn c
      else if cmd = ''sethook'' then withDetails hs ''cmdSetHook'' msg conn c
      else if cmd = ''delhook'' then withDetails hs ''cmdDelHook'' msg conn c
      else if cmd = ''pdelhook'' then withDetails hs ''cmdPDelHook'' msg conn c
      else if cmd = ''expire'' then withDetails hs ''cmdExpire'' msg conn c
      else if cmd = ''persist'' then withDetails hs ''cmdPersist'' msg conn c
      else if cmd = ''ttl'' then noDetailsOf hs ''cmdTTL'' msg conn c
      else if cmd = ''hooks'' then noDetailsOf hs ''cmdHooks'' msg conn c
      else if cmd = ''shutdown''
      then (if \<not> devMode then unknownCommand ex msg c
            else Exit ''shutdown requested by developer'')
      else if cmd = ''massinsert''
      then (if \<not> devMode then unknownCommand ex msg c
            else noDetailsOf hs ''cmdMassInsert'' msg conn c)
      else if cmd = ''sleep''
      then (if \<not> devMode then unknownCommand ex msg c
            else noDetailsOf hs ''cmdSleep'' msg conn c)
      else if cmd = ''follow'' then noDetailsOf hs ''cmdFollow'' msg conn c
      else if cmd = ''readonly'' then noDetailsOf hs ''cmdReadOnly'' msg conn c
      else if cmd = ''stats'' then noDetailsOf hs ''cmdStats'' msg conn c
      else if cmd = ''server'' then noDetailsOf hs ''cmdServer'' msg conn c
      else if cmd = ''info'' then noDetailsOf hs ''cmdInfo'' msg conn c
      else if cmd = ''scan'' then noDetailsOf hs ''cmdScan'' msg conn c
      else if cmd = ''nearby'' then noDetailsOf hs ''cmdNearby'' msg conn c
      else if cmd = ''within'' then noDetailsOf hs ''cmdWithin'' msg conn c
      else if cmd = ''intersects'' then noDetailsOf hs ''cmdIntersects'' msg conn c
      else if cmd = ''search'' then noDetailsOf hs ''cmdSearch'' msg conn c
      else if cmd = ''bounds'' then noDetailsOf hs ''cmdBounds'' msg conn c
      else if cmd = ''get'' then noDetailsOf hs ''cmdGet'' msg conn c
      else if cmd = ''jget'' then noDetailsOf hs ''cmdJget'' msg conn c
      else if cmd = ''jset'' then withDetails hs ''cmdJset'' msg conn c
      else if cmd = ''jdel'' then withDetails hs ''cmdJdel'' msg conn c
      else if cmd = ''type'' then noDetailsOf hs ''cmdType'' msg conn c
      else if cmd = ''keys'' then noDetailsOf hs ''cmdKeys'' msg conn c
      else if cmd = ''output'' then noDetailsOf hs ''cmdOutput'' msg conn c
      else if cmd = ''aof'' then noDetailsOf hs ''cmdAOF'' msg conn c
      else if cmd = ''aofmd5'' then noDetailsOf hs ''cmdAOFMD5'' msg conn c
      else if cmd = ''gc'' then Normal (okmsg, noDetails, None, c, [])
      else if cmd = ''aofshrink'' then Normal (okmsg, noDetails, None, c, [])
      else if cmd = ''config get'' then noDetailsOf hs ''cmdConfigGet'' msg conn c
      else if cmd = ''config set'' then noDetailsOf hs ''cmdConfigSet'' msg conn c
      else if cmd = ''config rewrite'' then noDetailsOf hs ''cmdConfigRewrite'' msg conn c
      else if cmd = ''client'' then noDetailsOf hs ''cmdClient'' msg conn c
      else if cmd \<in> {''eval'', ''evalro'', ''evalna''}
      then noDetailsOf hs ''cmdEvalUnified false'' msg conn c
      else if cmd \<in> {''evalsha'', ''evalrosha'', ''evalnasha''}
      then noDetailsOf hs ''cmdEvalUnified true'' msg conn c
      else if cmd = ''script load'' then noDetailsOf hs ''cmdScriptLoad'' msg conn c
      else if cmd = ''script exists'' then noDetailsOf hs ''cmdScriptExists'' msg conn c
      else if cmd = ''script flush'' then noDetailsOf hs ''cmdScriptFlush'' msg conn c
      else unknownCommand ex msg c)"

text \<open>
  \<open>Controller.command\<close>: \<open>config\<close> and \<open>script\<close> with an argument become the two-word
  command, which is dispatched in turn.
\<close>

function command ::
  "extern \<Rightarrow> handlers \<Rightarrow> bool \<Rightarrow> Value \<Rightarrow> Message \<Rightarrow> Conn \<Rightarrow> Controller
    \<Rightarrow> handlerResult outcome" where
  "command ex hs devMode okmsg msg conn c =
     (if msg_Command msg \<in> {''config'', ''script''}
      then
        (case msg_Values msg of
           [] \<Rightarrow> Crash
         | [v] \<Rightarrow> unknownCommand ex msg c
         | v # w # vs \<Rightarrow>
             command ex hs devMode okmsg
               (msg\<lparr> msg_Values := StringValue (value_String ex v @ '' '' @ value_String ex w) # vs,
                      msg_Command := ToLower ex (value_String ex v @ '' '' @ value_String ex w) \<rparr>)
               conn c)
      else command1 ex hs devMode okmsg msg conn c)"
  by pat_completeness auto
termination
  by (relation "measure (\<lambda>(ex, hs, devMode, okmsg, msg, conn, c). length (msg_Values msg))") auto

declare command.simps [simp del]

text \<open>
  \<open>msg\<close> is a pointer, and the rewriting of \<open>config\<close> and \<open>script\<close> changes the message
  in place: \<open>commandMsg\<close> is the message as \<open>Controller.command\<close> leaves it to its
  caller.
\<close>

function commandMsg :: "extern \<Rightarrow> Message \<Rightarrow> Message" where
  "commandMsg ex msg =
     (if msg_Command msg \<in> {''config'', ''script''}
      then
        (case msg_Values msg of
           [] \<Rightarrow> msg
         | [v] \<Rightarrow> msg
         | v # w # vs \<Rightarrow>
             commandMsg ex
               (msg\<lparr> msg_Values := StringValue (value_String ex v @ '' '' @ value_String ex w) # vs,
                      msg_Command := ToLower ex (value_String ex v @ '' '' @ value_String ex w) \<rparr>))
      else msg)"
  by pat_completeness auto
termination
  by (relation "measure (\<lambda>(ex, msg). length (msg_Values msg))") auto

declare commandMsg.simps [simp del]

text \<open>
  What \<open>handleInputCommand\<close> leaves behind: the bytes written to the client, the error it
  returns, the connection, the controller, and the lock it took. Writing to the client
  does not fail in the model.
\<close>

datatype lockT = NoLock | ReadLock | WriteLock

datatype routerErr = ErrUnsupportedConn | ErrGoingLive cmdErr | ErrMarshal

record routerResult =
  r_out :: string
  r_err :: "routerErr option"
  r_conn :: Conn
  r_ctrl :: Controller
  r_lock :: lockT

text \<open>
  \<open>writeAOF\<close> is outside the sources. It appends the command to the log and passes the
  details on to the hooks and the live queries; it ends well, with an \<open>errAOFHook\<close>, or
  with another error, which the router treats as fatal.
\<close>

datatype aofResult = AOFOk | AOFHookErr string | AOFFail string

type_synonym writeAOFT = "Value \<Rightarrow> commandDetailsT \<Rightarrow> Controller \<Rightarrow> aofResult \<times> Controller"

definition serializeOutput :: "extern \<Rightarrow> Message \<Rightarrow> Value \<Rightarrow> string \<times> bool" where
  "serializeOutput ex msg res =
     (case msg_OutputType msg of
        JSON \<Rightarrow> (value_String ex res, False)
      | RESP \<Rightarrow> (case value_MarshalRESP ex res of None \<Rightarrow> ([], True) | Some b \<Rightarrow> (b, False))
      | _ \<Rightarrow> ([], False))"

definition writeOutput :: "extern \<Rightarrow> Message \<Rightarrow> string \<Rightarrow> string \<times> routerErr option" where
  "writeOutput ex msg res =
     (case msg_ConnType msg of
        WebSocket \<Rightarrow> (webSocketFrame ex res, None)
      | HTTP \<Rightarrow>
          (''HTTP/1.1 200 OK'' @ crlf @ ''Connection: close'' @ crlf
           @ ''Content-Length: '' @ FormatUint (length res + 2) @ crlf
           @ ''Content-Type: application/json; charset=utf-8'' @ crlf @ crlf
           @ res @ crlf, None)
      | RESP \<Rightarrow>
          (if msg_OutputType msg = JSON
           then (''$'' @ FormatUint (length res) @ crlf @ res @ crlf, None)
           else (res, None))
      | Native \<Rightarrow> (''$'' @ FormatUint (length res) @ '' '' @ res @ crlf, None)
      | JSON \<Rightarrow> ([], Some ErrUnsupportedConn))"

definition writeErr :: "extern \<Rightarrow> Message \<Rightarrow> string \<Rightarrow> string \<Rightarrow> string \<times> routerErr option" where
  \<open>writeErr ex msg el errMsg =
     (case msg_OutputType msg of
        JSON \<Rightarrow>
          writeOutput ex msg
            (''{"ok":false,"err":'' @ jsonString ex errMsg @ '',"elapsed":"'' @ el
             @ [CHR 0x22] @ ''}'')
      | RESP \<Rightarrow>
          (if errMsg = errInvalidNumberOfArguments ex
           then writeOutput ex msg
                  (''-ERR wrong number of arguments for '' @ [CHR 0x27] @ msg_Command msg
                   @ [CHR 0x27] @ '' command'' @ crlf)
           else writeOutput ex msg
                  (case value_MarshalRESP ex (ErrorValue (''ERR '' @ errMsg)) of
                     None \<Rightarrow> [] | Some v \<Rightarrow> v))
      | _ \<Rightarrow> ([], None))\<close>

definition isRespValueEmptyString :: "Value \<Rightarrow> bool" where
  "isRespValueEmptyString val =
     (case val of SimpleStringValue b \<Rightarrow> length b = 0 | StringValue b \<Rightarrow> length b = 0 | _ \<Rightarrow> False)"

definition isErrorValue :: "Value \<Rightarrow> bool" where
  "isErrorValue val = (case val of ErrorValue e \<Rightarrow> True | _ \<Rightarrow> False)"

text \<open>A return of the router with the given write to the client.\<close>

definition reply ::
  "lockT \<Rightarrow> Conn \<Rightarrow> Controller \<Rightarrow> string \<Rightarrow> string \<times> routerErr option \<Rightarrow> routerResult outcome" where
  "reply lock conn c pre w =
     Normal \<lparr> r_out = pre @ fst w, r_err = snd w, r_conn = conn, r_ctrl = c, r_lock = lock \<rparr>"

text \<open>The answer to \<open>PING\<close> and \<open>ECHO\<close>, which is given before anything else.\<close>

definition pingReply :: "extern \<Rightarrow> Message \<Rightarrow> string \<Rightarrow> string \<times> routerErr option" where
  \<open>pingReply ex msg el =
     (case msg_OutputType msg of
        JSON \<Rightarrow>
          (if length (msg_Values msg) > 1
           then writeOutput ex msg
                  (''{"ok":true,"'' @ msg_Command msg @ [CHR 0x22] @ '':''
                   @ jsonString ex (value_String ex (msg_Values msg ! 1))
                   @ '',"elapsed":"'' @ el @ [CHR 0x22] @ ''}'')
           else writeOutput ex msg
                  (''{"ok":true,"'' @ msg_Command msg @ [CHR 0x22] @ '':"pong","elapsed":"''
                   @ el @ [CHR 0x22] @ ''}''))
      | RESP \<Rightarrow>
          (if length (msg_Values msg) > 1
           then writeOutput ex msg
                  (case value_MarshalRESP ex (msg_Values msg ! 1) of None \<Rightarrow> [] | Some b \<Rightarrow> b)
           else writeOutput ex msg (''+PONG'' @ crlf))
      | _ \<Rightarrow> ([], None))\<close>

text \<open>
  The locking strategy: the lock, whether the command is a write whose tokens go to the
  log, and the error that rejects the command under the lock, if any.
\<close>

definition leaderGate :: "Controller \<Rightarrow> string option" where
  "leaderGate c =
     (if followHost (c_config c) \<noteq> [] then Some ''not the leader''
      else if readOnly (c_config c) then Some ''read only''
      else None)"

definition lockingStrategy :: "Message \<Rightarrow> Controller \<Rightarrow> lockT \<times> bool \<times> string option" where
  "lockingStrategy msg c =
     (let cmd = msg_Command msg in
      if cmd \<in> {''set'', ''del'', ''drop'', ''fset'', ''flushdb'', ''sethook'', ''pdelhook'',
                 ''delhook'', ''expire'', ''persist'', ''jset'', ''pdel''}
      then (WriteLock, True, leaderGate c)
      else if cmd \<in> {''eval'', ''evalsha''}
      then (WriteLock, False, leaderGate c)
      else if cmd \<in> {''get'', ''keys'', ''scan'', ''nearby'', ''within'', ''intersects'', ''hooks'',
                      ''search'', ''ttl'', ''bounds'', ''server'', ''info'', ''type'', ''jget'',
                      ''evalro'', ''evalrosha''}
      then (ReadLock, False,
            if followHost (c_config c) \<noteq> [] \<and> \<not> c_fcuponce c
            then Some ''catching up to leader'' else None)
      else if cmd \<in> {''follow'', ''readonly'', ''config''} then (WriteLock, False, None)
      else if cmd = ''output'' then (NoLock, False, None)
      else if cmd = ''echo'' then (NoLock, False, None)
      else if cmd = ''massinsert'' then (WriteLock, False, None)
      else if cmd = ''sleep'' then (ReadLock, False, None)
      else if cmd = ''shutdown'' then (WriteLock, False, None)
      else if cmd = ''aofshrink'' then (ReadLock, False, None)
      else if cmd = ''client'' then (WriteLock, False, None)
      else if cmd \<in> {''evalna'', ''evalnasha''} then (NoLock, False, None)
      else (ReadLock, False, None))"

text \<open>The part of \<open>handleInputCommand\<close> after the handler has returned.\<close>

definition afterCommand ::
  "extern \<Rightarrow> writeAOFT \<Rightarrow> string \<Rightarrow> lockT \<Rightarrow> bool \<Rightarrow> Conn \<Rightarrow> Message \<Rightarrow> handlerResult
    \<Rightarrow> routerResult outcome" where
  "afterCommand ex writeAOF el lock write conn msg hr =
     (case hr of (res, d, err, c1, hout) \<Rightarrow>
        if isErrorValue res then reply lock conn c1 hout (writeErr ex msg el (value_String ex res))
        else
          (case err of
             Some e \<Rightarrow>
               if errString e = ''going live''
               then reply lock conn c1 hout ([], Some (ErrGoingLive e))
               else reply lock conn c1 hout (writeErr ex msg el (errString e))
           | None \<Rightarrow>
               (case (if write then writeAOF (ArrayValue (msg_Values msg)) d c1 else (AOFOk, c1)) of
                  (AOFHookErr m, c2) \<Rightarrow> reply lock conn c2 hout (writeErr ex msg el m)
                | (AOFFail m, c2) \<Rightarrow> Exit m
                | (AOFOk, c2) \<Rightarrow>
                    if \<not> isRespValueEmptyString res
                    then (case serializeOutput ex msg res of
                            (resStr, True) \<Rightarrow> reply lock conn c2 hout ([], Some ErrMarshal)
                          | (resStr, False) \<Rightarrow> reply lock conn c2 hout (writeOutput ex msg resStr))
                    else reply lock conn c2 hout ([], None))))"

text \<open>The part of \<open>handleInputCommand\<close> from the choice of the lock on.\<close>

definition lockedCommand ::
  "extern \<Rightarrow> handlers \<Rightarrow> writeAOFT \<Rightarrow> bool \<Rightarrow> Value \<Rightarrow> string \<Rightarrow> Conn \<Rightarrow> Message \<Rightarrow> Controller
    \<Rightarrow> routerResult outcome" where
  "lockedCommand ex hs writeAOF devMode okmsg el conn msg c =
     (case lockingStrategy msg c of
        (lock, write, Some e) \<Rightarrow> reply lock conn c [] (writeErr ex msg el e)
      | (lock, write, None) \<Rightarrow>
          (case command ex hs devMode okmsg msg conn c of
             Exit e \<Rightarrow> Exit e
           | Crash \<Rightarrow> Crash
           | Normal hr \<Rightarrow> afterCommand ex writeAOF el lock write conn (commandMsg ex msg) hr))"

text \<open>
  \<open>handleInputCommand\<close>. \<open>el\<close> is the printed elapsed time and \<open>okmsg\<close> the value of
  \<open>server.OKMessage\<close>.
\<close>

definition handleInputCommand ::
  "extern \<Rightarrow> handlers \<Rightarrow> writeAOFT \<Rightarrow> bool \<Rightarrow> Value \<Rightarrow> string \<Rightarrow> Conn \<Rightarrow> Message \<Rightarrow> Controller
    \<Rightarrow> routerResult outcome" where
  "handleInputCommand ex hs writeAOF devMode okmsg el conn msg c =
     (if msg_Command msg = ''ping'' \<or> msg_Command msg = ''echo''
      then reply NoLock conn c [] (pingReply ex msg el)
      else if \<not> Authenticated conn \<or> msg_Command msg = ''auth''
      then
        (if requirePass (c_config c) \<noteq> []
         then
           (if msg_Command msg \<noteq> ''auth'' \<and> msg_Auth msg = []
            then reply NoLock conn c [] (writeErr ex msg el ''authentication required'')
            else
              let password =
                    (if msg_Auth msg \<noteq> [] then msg_Auth msg
                     else if length (msg_Values msg) > 1
                     then value_String ex (msg_Values msg ! 1) else [])
              in
              if requirePass (c_config c) \<noteq> TrimSpace ex password
              then reply NoLock conn c [] (writeErr ex msg el ''invalid password'')
              else
                let conn' = conn\<lparr> Authenticated := True \<rparr> in
                if msg_ConnType msg \<noteq> HTTP
                then reply NoLock conn' c []
                       (writeOutput ex msg (fst (serializeOutput ex msg okmsg)))
                else lockedCommand ex hs writeAOF devMode okmsg el conn' msg c)
         else if msg_Command msg = ''auth''
         then reply NoLock conn c [] (writeErr ex msg el ''invalid password'')
         else lockedCommand ex hs writeAOF devMode okmsg el conn msg c)
      else lockedCommand ex hs writeAOF devMode okmsg el conn msg c)"

section \<open>Invariants of the scan writer\<close>

text \<open>
  The parts of a writer that no callback changes, and the relation between the number of
  emitted items, the limit, the limit flag and the RESP output that every callback keeps.
\<close>

definition swStatic :: "scanWriter \<Rightarrow> scanWriter \<Rightarrow> bool" where
  "swStatic sw sw' \<longleftrightarrow> sw_limit sw' = sw_limit sw \<and> sw_cursor sw' = sw_cursor sw
     \<and> sw_output sw' = sw_output sw \<and> sw_OutputType sw' = sw_OutputType sw \<and> sw_col sw' = sw_col sw"

definition swInv :: "scanWriter \<Rightarrow> bool" where
  "swInv sw \<longleftrightarrow> sw_numberItems sw \<le> sw_limit sw
     \<and> (sw_hitLimit sw \<longleftrightarrow> sw_numberItems sw = sw_limit sw)
     \<and> (sw_OutputType sw = RESP \<longrightarrow> length (sw_values sw) = unat (sw_numberItems sw))"

text \<open>The page size a request asks for: its limit, or the default when the limit is 0.\<close>

definition effectiveLimit :: "liveFenceSwitches \<Rightarrow> uint64" where
  "effectiveLimit s =
     (if s_limit s = 0 then (if s_output s = outputCount then MaxUint64 else 100) else s_limit s)"

text \<open>A callback either leaves the writer alone and goes on, or is a call of \<open>writeObject\<close>.\<close>

definition callbackOf ::
  "extern \<Rightarrow> (scanWriter \<Rightarrow> 'a \<Rightarrow> (scanWriter \<times> bool) option) \<Rightarrow> bool" where
  "callbackOf ex f \<longleftrightarrow>
     (\<forall>sw x sw' k. f sw x = Some (sw', k) \<longrightarrow>
        (sw' = sw \<and> k) \<or> (\<exists>p. writeObject ex sw p = Some (sw', k)))"

section \<open>Results and expiration\<close>

text \<open>The id that an element of the RESP array of results carries.\<close>

fun valueId :: "Value \<Rightarrow> string" where
  "valueId (StringValue i) = i"
| "valueId (ArrayValue (StringValue i # vs)) = i"
| "valueId v = []"

text \<open>The controller with an empty expiration index.\<close>

definition noExpiry :: "Controller \<Rightarrow> Controller" where
  "noExpiry c = c\<lparr> c_expires := Map.empty \<rparr>"

text \<open>Every id in the RESP results of the writer is one that has not expired.\<close>

definition idsLive :: "Controller \<Rightarrow> int \<Rightarrow> string \<Rightarrow> scanWriter \<Rightarrow> bool" where
  "idsLive c now key sw \<longleftrightarrow> (\<forall>v \<in> set (sw_values sw). \<not> hasExpired c now key (valueId v))"

section \<open>The candidates of a nearest-neighbour search\<close>

text \<open>
  A candidate passes the filters when \<open>fieldMatch\<close> and \<open>globMatch\<close> accept it;
  \<open>toIterItem\<close> is the item that \<open>nearestNeighbors\<close> keeps of it.
\<close>

definition passesFilters :: "extern \<Rightarrow> scanWriter \<Rightarrow> item \<Rightarrow> bool" where
  "passesFilters ex sw x =
     (case x of (i, ob, flds) \<Rightarrow>
        (case fieldMatch sw flds ob of
           Some (sw1, nf, ok) \<Rightarrow> ok \<and> fst (globMatch ex sw i ob)
         | None \<Rightarrow> False))"

definition toIterItem :: "extern \<Rightarrow> real \<Rightarrow> real \<Rightarrow> item \<Rightarrow> iterItem" where
  "toIterItem ex lat lon x =
     (case x of (i, ob, flds) \<Rightarrow>
        \<lparr> it_id = i, it_o = ob, it_fields = flds,
          it_dist = DistanceTo ex (CalculatedPoint ob) \<lparr> X = lon, Y = lat, Z = 0 \<rparr> \<rparr>)"

section \<open>Example data\<close>

text \<open>Concrete values on which the theorems below are exercised.\<close>

definition ex0 :: extern where
  "ex0 = \<lparr> FormatFloat = (\<lambda>x. if x = 0 then ''0'' else ''1''),
           FormatFloat2 = (\<lambda>x. if x = 0 then ''0.00'' else ''1.00''),
           jsonString = (\<lambda>s. [CHR 0x22] @ s @ [CHR 0x22]),
           glob_Match = (\<lambda>pat s. pat = ''*'' \<or> pat = s),
           glob_IsGlob = (\<lambda>pat. CHR ''*'' \<in> set pat),
           orderFields = (\<lambda>fmap flds. []),
           bboxExternalJSON = (\<lambda>b. ''{}''),
           geo_DistanceTo = (\<lambda>lat1 lon1 lat2 lon2. \<bar>lat1 - lat2\<bar> + \<bar>lon1 - lon2\<bar>),
           glob_Limits = (\<lambda>pat desc. ([], [])),
           TrimSpace = filter (\<lambda>ch. ch \<noteq> CHR '' ''),
           json_Marshal = (\<lambda>s. [CHR 0x22] @ s @ [CHR 0x22]),
           value_String = (\<lambda>v. case v of StringValue s \<Rightarrow> s
                                      | SimpleStringValue s \<Rightarrow> s
                                      | ErrorValue s \<Rightarrow> s | _ \<Rightarrow> []),
           value_MarshalRESP =
             (\<lambda>v. case v of SimpleStringValue s \<Rightarrow> Some (''+'' @ s @ [CHR 0x0D, CHR 0x0A])
                        | ErrorValue s \<Rightarrow> Some (''-'' @ s @ [CHR 0x0D, CHR 0x0A])
                        | IntegerValue i \<Rightarrow> Some ('':'' @ FormatUint (nat i) @ [CHR 0x0D, CHR 0x0A])
                        | StringValue s \<Rightarrow>
                            Some (''$'' @ FormatUint (length s) @ [CHR 0x0D, CHR 0x0A] @ s
                                  @ [CHR 0x0D, CHR 0x0A])
                        | _ \<Rightarrow> None),
           ToLower = (\<lambda>s. s),
           webSocketFrame = (\<lambda>s. s),
           errInvalidNumberOfArguments = ''invalid number of arguments'',
           ParseFloat = (\<lambda>s. if s = ''0'' then Some 0 else if s = ''1'' then Some 1 else None),
           errInvalidArgument = (\<lambda>a. ''invalid argument '' @ [CHR 0x27] @ a @ [CHR 0x27]) \<rparr>"

definition pointObject :: "real \<Rightarrow> real \<Rightarrow> real \<Rightarrow> Object" where
  "pointObject lat lon z =
     \<lparr> CalculatedPoint = \<lparr> X = lon, Y = lat, Z = z \<rparr>,
       CalculatedBBox = \<lparr> bbMin = \<lparr> X = lon, Y = lat, Z = z \<rparr>,
                          bbMax = \<lparr> X = lon, Y = lat, Z = z \<rparr> \<rparr>,
       objString = ''point'', objJSON = ''{}'', Geohash = (\<lambda>n. Some ''s''),
       IsGeometry = True, isSimplePoint = True \<rparr>"

definition params0 :: "string \<Rightarrow> Object \<Rightarrow> ScanWriterParams" where
  "params0 i ob = \<lparr> p_id = i, p_o = ob, p_fields = [], p_distance = 0, p_noLock = True,
                    p_ignoreGlobMatch = False \<rparr>"

definition sw0 :: "Type \<Rightarrow> outputT \<Rightarrow> string \<Rightarrow> uint64 \<Rightarrow> uint64 \<Rightarrow> scanWriter" where
  "sw0 ot out pat cur lm =
     (case newScanWriter ex0 None [] ot out 0 pat False cur lm [] [] [] False of
        Inr sw \<Rightarrow> sw)"

definition col0 :: Collection where
  "col0 = \<lparr> FieldMap = [], FieldArr = [], col_Count = 2,
            col_items = [(''a'', pointObject 1 1 0, []), (''b'', pointObject 3 3 5, [])] \<rparr>"

definition c0 :: Controller where
  "c0 = \<lparr> c_config = \<lparr> requirePass = [], followHost = [], readOnly = False \<rparr>,
          c_aof = Some [], c_aofsz = 0, c_cols = [(''fleet'', col0)],
          c_expires = [''fleet'' \<mapsto> [''a'' \<mapsto> 50]],
          c_fcuponce = False, c_shrinking = False, c_shrinklog = [], c_hooks = [],
          c_hookcols = [], c_aofconnM = [], c_lstack = [] \<rparr>"

definition s0 :: "outputT \<Rightarrow> uint64 \<Rightarrow> uint64 \<Rightarrow> liveFenceSwitches" where
  "s0 out cur lm =
     \<lparr> s_key = ''fleet'', s_output = out, s_precision = 0, s_glob = [], s_cursor = cur,
       s_limit = lm, s_wheres = [], s_whereins = [], s_whereevals = [], s_nofields = False,
       s_fence = False, s_distance = False, s_desc = False, s_lat = 0, s_lon = 0,
       s_meters = 0, s_cmd = [], s_knn = False, s_ulimit = False, s_usparse = False \<rparr>"


definition msg0 :: "string \<Rightarrow> string list \<Rightarrow> Type \<Rightarrow> Message" where
  "msg0 cmd args ot =
     \<lparr> msg_Command = cmd, msg_Values = map StringValue args, msg_ConnType = RESP,
       msg_OutputType = ot, msg_Auth = [] \<rparr>"

definition fenceTokens :: "Value list" where
  "fenceTokens = map StringValue [''nearby'', ''fleet'', ''fence'', ''point'', ''0'', ''0'', ''10000'']"

definition sFence :: liveFenceSwitches where
  "sFence = (s0 outputIDs 0 0)\<lparr> s_fence := True \<rparr>"

definition setHook0 ::
  "Controller \<Rightarrow> string list
    \<Rightarrow> (Value \<times> commandDetailsT \<times> cmdErr option \<times> Controller \<times> hookEvent list) option" where
  "setHook0 c endpoints =
     cmdSetHook ex0 c
       (msg0 ''sethook'' [''sethook'', ''h'', ''http://x/'', ''nearby'', ''fleet'', ''fence'',
                          ''point'', ''0'', ''0'', ''10000''] RESP)
       (SimpleStringValue ''OK'') 5 ''h'' endpoints ''nearby'' fenceTokens [] sFence"

definition cHooked :: Controller where
  "cHooked = (case setHook0 c0 [''http://x/''] of Some (res, d, err, c', evs) \<Rightarrow> c')"


definition ioOK :: shrinkIO where
  "ioOK = \<lparr> createOK = True, writeOK = (\<lambda>n. True), syncOK = (\<lambda>n. True), closeLiveOK = True,
            closeNewOK = True, renameBakOK = True, renameNewOK = True, openOK = True,
            seekOK = True \<rparr>"

text \<open>
  Handlers that push details named after them, a handler that fails, and a \<open>writeAOF\<close>
  that appends a byte to the log.
\<close>

definition hs0 :: handlers where
  "hs0 name msg conn c =
     (IntegerValue 1, noDetails\<lparr> d_command := name, d_updated := True \<rparr>, None,
      c\<lparr> c_lstack := noDetails\<lparr> d_command := name \<rparr> # c_lstack c \<rparr>, [])"

definition hsErr :: handlers where
  "hsErr name msg conn c = (NOMessage, noDetails, Some (Err ''id not found''), c, [])"

definition writeAOF0 :: writeAOFT where
  "writeAOF0 v d c =
     (AOFOk, c\<lparr> c_aof := map_option (\<lambda>f. f @ ''*'') (c_aof c) \<rparr>)"

definition cFollow :: Controller where
  "cFollow = c0\<lparr> c_config := \<lparr> requirePass = [], followHost = ''10.0.0.1'', readOnly = False \<rparr>,
                 c_fcuponce := True \<rparr>"

definition cPass :: Controller where
  "cPass = c0\<lparr> c_config := \<lparr> requirePass = ''secret'', followHost = [], readOnly = False \<rparr> \<rparr>"

definition conn1 :: Conn where
  "conn1 = \<lparr> Authenticated = True \<rparr>"

definition conn0 :: Conn where
  "conn0 = \<lparr> Authenticated = False \<rparr>"

section \<open>Properties of the scan writer\<close>

lemma fieldMatch_only_fvals:
  "fieldMatch sw flds ob = Some (sw1, nf, b) \<Longrightarrow> sw1 = sw\<lparr> sw_fvals := sw_fvals sw1 \<rparr>"
  by (auto simp: fieldMatch_def Let_def split: if_splits option.splits)

lemma fieldMatch_fields:
  assumes "fieldMatch sw flds ob = Some (sw1, nf, b)"
  shows "sw_limit sw1 = sw_limit sw" "sw_cursor sw1 = sw_cursor sw" "sw_output sw1 = sw_output sw"
    "sw_OutputType sw1 = sw_OutputType sw" "sw_col sw1 = sw_col sw"
    "sw_numberItems sw1 = sw_numberItems sw" "sw_hitLimit sw1 = sw_hitLimit sw"
    "sw_values sw1 = sw_values sw" "sw_count sw1 = sw_count sw" "sw_wr sw1 = sw_wr sw"
  using assms by (auto simp: fieldMatch_def Let_def split: if_splits option.splits)

lemma writeObjectRESP_fields:
  "sw_limit (writeObjectRESP ex sw p) = sw_limit sw"
  "sw_cursor (writeObjectRESP ex sw p) = sw_cursor sw"
  "sw_output (writeObjectRESP ex sw p) = sw_output sw"
  "sw_OutputType (writeObjectRESP ex sw p) = sw_OutputType sw"
  "sw_col (writeObjectRESP ex sw p) = sw_col sw"
  "sw_numberItems (writeObjectRESP ex sw p) = sw_numberItems sw"
  "sw_hitLimit (writeObjectRESP ex sw p) = sw_hitLimit sw"
  "sw_count (writeObjectRESP ex sw p) = sw_count sw"
  "length (sw_values (writeObjectRESP ex sw p)) = Suc (length (sw_values sw))"
  by (simp_all add: writeObjectRESP_def Let_def)

lemma writeObjectJSON_fields:
  "sw_limit (writeObjectJSON ex sw p nf) = sw_limit sw"
  "sw_cursor (writeObjectJSON ex sw p nf) = sw_cursor sw"
  "sw_output (writeObjectJSON ex sw p nf) = sw_output sw"
  "sw_OutputType (writeObjectJSON ex sw p nf) = sw_OutputType sw"
  "sw_col (writeObjectJSON ex sw p nf) = sw_col sw"
  "sw_numberItems (writeObjectJSON ex sw p nf) = sw_numberItems sw"
  "sw_hitLimit (writeObjectJSON ex sw p nf) = sw_hitLimit sw"
  "sw_count (writeObjectJSON ex sw p nf) = sw_count sw"
  "sw_values (writeObjectJSON ex sw p nf) = sw_values sw"
  by (simp_all add: writeObjectJSON_def Let_def)

lemma word_succ_le: "(x::uint64) \<le> y \<Longrightarrow> x \<noteq> y \<Longrightarrow> x + 1 \<le> y"
  by (simp add: inc_le)

lemma unat_succ: "(x::uint64) \<le> y \<Longrightarrow> x \<noteq> y \<Longrightarrow> unat (x + 1) = Suc (unat x)"
  by (metis add.commute neg_eq_iff_add_eq_0 unatSuc word_order.extremum_unique)

lemma unat_succ_eq: "(x::uint64) \<le> y \<Longrightarrow> x \<noteq> y \<Longrightarrow> x + 1 = y \<Longrightarrow> Suc (unat x) = unat y"
  using unat_succ by metis

lemma writeObject_static:
  assumes "writeObject ex sw p = Some (sw', k)"
  shows "swStatic sw sw'"
  using assms
  by (auto simp: writeObject_def swStatic_def Let_def fieldMatch_fields writeObjectRESP_fields writeObjectJSON_fields
      split: prod.splits option.splits if_splits Type.splits)

lemma writeObject_inv:
  assumes "writeObject ex sw p = Some (sw', k)" "swInv sw" "\<not> sw_hitLimit sw"
  shows "swInv sw' \<and> (k \<longrightarrow> \<not> sw_hitLimit sw')"
  using assms
  by (auto simp: writeObject_def swInv_def Let_def fieldMatch_fields writeObjectRESP_fields writeObjectJSON_fields
        word_succ_le unat_succ unat_succ_eq
      split: prod.splits option.splits if_splits Type.splits)

lemma iterate_invariant:
  assumes step: "\<And>s x s' k. P s \<Longrightarrow> f s x = Some (s', k) \<Longrightarrow> Q s' \<and> (k \<longrightarrow> P s')"
    and "P s" "Q s" "iterate f s xs = Some s'"
  shows "Q s'"
  using assms(2-)
proof (induction xs arbitrary: s)
  case Nil
  then show ?case by simp
next
  case (Cons x xs)
  from Cons.prems(3) obtain s1 k where f: "f s x = Some (s1, k)"
    by (auto split: option.splits)
  from step [OF Cons.prems(1) f] have q: "Q s1" and p: "k \<longrightarrow> P s1" by auto
  show ?case
  proof (cases k)
    case True
    with Cons.prems(3) f have "iterate f s1 xs = Some s'" by simp
    with Cons.IH p True q show ?thesis by blast
  next
    case False
    with Cons.prems(3) f have "s' = s1" by simp
    with q show ?thesis by simp
  qed
qed

lemma MaxUint64_top: "n \<le> MaxUint64"
  by (simp add: MaxUint64_def)

lemma writeHead_fields:
  "sw_limit (writeHead ex sw) = sw_limit sw" "sw_cursor (writeHead ex sw) = sw_cursor sw"
  "sw_output (writeHead ex sw) = sw_output sw" "sw_OutputType (writeHead ex sw) = sw_OutputType sw"
  "sw_col (writeHead ex sw) = sw_col sw" "sw_numberItems (writeHead ex sw) = sw_numberItems sw"
  "sw_hitLimit (writeHead ex sw) = sw_hitLimit sw" "sw_values (writeHead ex sw) = sw_values sw"
  "sw_count (writeHead ex sw) = sw_count sw"
  by (simp_all add: writeHead_def split: Type.splits)

lemma openWriter_fresh:
  assumes "openWriter ex c ot s mv = Inr sw"
  shows "sw_limit sw = effectiveLimit s" "sw_cursor sw = s_cursor s" "sw_output sw = s_output s"
    "sw_OutputType sw = ot" "sw_numberItems sw = 0" "\<not> sw_hitLimit sw" "sw_values sw = []"
    "sw_count sw = 0" "sw_limit sw \<noteq> 0"
  using assms
  by (auto simp: openWriter_def newScanWriter_def Let_def writeHead_fields effectiveLimit_def
      MaxUint64_def limitItems_def split: sum.splits if_splits)

lemma openWriter_inv:
  assumes "openWriter ex c ot s mv = Inr sw"
  shows "swInv sw"
  using openWriter_fresh [OF assms] by (simp add: swInv_def)

lemma swStatic_refl: "swStatic sw sw"
  by (simp add: swStatic_def)

lemma swStatic_trans: "swStatic a b \<Longrightarrow> swStatic b c \<Longrightarrow> swStatic a c"
  by (simp add: swStatic_def)


lemma callbackOf_nearbyIter: "callbackOf ex (nearbyIter ex c now s)"
  by (auto simp: callbackOf_def nearbyIter_def Let_def split: prod.splits if_splits)

lemma callbackOf_withinIter: "callbackOf ex (withinIter ex c now s)"
  by (auto simp: callbackOf_def withinIter_def split: prod.splits if_splits)

lemma iterate_callback_inv:
  assumes cb: "callbackOf ex f"
    and "swInv sw" "\<not> sw_hitLimit sw" "iterate f sw xs = Some sw'"
  shows "swInv sw' \<and> swStatic sw sw'"
proof -
  have step: "\<And>s x s' k. (swInv s \<and> swStatic sw s) \<and> \<not> sw_hitLimit s \<Longrightarrow> f s x = Some (s', k)
      \<Longrightarrow> (swInv s' \<and> swStatic sw s') \<and> (k \<longrightarrow> (swInv s' \<and> swStatic sw s') \<and> \<not> sw_hitLimit s')"
  proof -
    fix s x s' k
    assume p: "(swInv s \<and> swStatic sw s) \<and> \<not> sw_hitLimit s" and f: "f s x = Some (s', k)"
    from cb f have "(s' = s \<and> k) \<or> (\<exists>p. writeObject ex s p = Some (s', k))"
      unfolding callbackOf_def by blast
    then show "(swInv s' \<and> swStatic sw s') \<and> (k \<longrightarrow> (swInv s' \<and> swStatic sw s') \<and> \<not> sw_hitLimit s')"
    proof
      assume "s' = s \<and> k"
      with p show ?thesis by simp
    next
      assume "\<exists>p. writeObject ex s p = Some (s', k)"
      then obtain q where w: "writeObject ex s q = Some (s', k)" by blast
      from writeObject_inv [OF w] p have "swInv s'" "k \<longrightarrow> \<not> sw_hitLimit s'" by auto
      moreover from writeObject_static [OF w] p have "swStatic sw s'"
        using swStatic_trans by blast
      ultimately show ?thesis by simp
    qed
  qed
  show ?thesis
    by (rule iterate_invariant [where P = "\<lambda>s. (swInv s \<and> swStatic sw s) \<and> \<not> sw_hitLimit s"
          and Q = "\<lambda>s. swInv s \<and> swStatic sw s" and f = f, OF step _ _ assms(4)])
       (use assms(2,3) swStatic_refl in auto)
qed

lemma knnCollect_only_fvals:
  "knnCollect ex lat lon limit sw items cs = Some (sw1, items') \<Longrightarrow> sw1 = sw\<lparr> sw_fvals := sw_fvals sw1 \<rparr>"
proof (induction cs arbitrary: sw items)
  case Nil
  then show ?case by simp
next
  case (Cons x cs)
  obtain i ob flds where x: "x = (i, ob, flds)" by (cases x) auto
  from Cons.prems x obtain sw2 nf ok where f: "fieldMatch sw flds ob = Some (sw2, nf, ok)"
    by (auto split: option.splits)
  have e: "sw2 = sw\<lparr> sw_fvals := sw_fvals sw2 \<rparr>" using f by (rule fieldMatch_only_fvals)
  have "sw1 = sw2 \<or> (\<exists>it. knnCollect ex lat lon limit sw2 it cs = Some (sw1, items'))"
    using Cons.prems x f by (auto simp: Let_def split: if_splits prod.splits)
  then show ?case
  proof
    assume "sw1 = sw2" with e show ?thesis by simp
  next
    assume "\<exists>it. knnCollect ex lat lon limit sw2 it cs = Some (sw1, items')"
    then obtain it where "knnCollect ex lat lon limit sw2 it cs = Some (sw1, items')" by blast
    from Cons.IH [OF this] have "sw1 = sw2\<lparr> sw_fvals := sw_fvals sw1 \<rparr>" .
    then show ?thesis by (subst (asm) e) simp
  qed
qed

lemma only_fvals_inv:
  assumes "sw1 = sw\<lparr> sw_fvals := v \<rparr>"
  shows "swInv sw1 = swInv sw" "swStatic sw sw1" "sw_hitLimit sw1 = sw_hitLimit sw"
  using assms by (simp_all add: swInv_def swStatic_def)





lemma withinBody_inv:
  assumes b: "withinBody ex c now cmd s sw cands = Some sw'" and i: "swInv sw"
    and h: "\<not> sw_hitLimit sw"
  shows "swInv sw' \<and> swStatic sw sw'"
proof -
  have "sw' = sw \<or> iterate (withinIter ex c now s) sw cands = Some sw'"
    using b by (auto simp: withinBody_def split: option.splits if_splits)
  then show ?thesis
    using i iterate_callback_inv [OF callbackOf_withinIter i h] swStatic_refl by auto
qed

lemma nearbyBody_inv:
  assumes b: "nearbyBody ex c now s sw cands = Some sw'" and i: "swInv sw"
    and h: "\<not> sw_hitLimit sw"
  shows "swInv sw' \<and> swStatic sw sw'"
proof -
  have "sw' = sw
      \<or> iterate (nearbyIter ex c now s) sw (map (\<lambda>x. (x, None)) cands) = Some sw'
      \<or> (\<exists>sw1 items xs. knnCollect ex (s_lat s) (s_lon s) (knnLimit sw) sw [] cands = Some (sw1, items)
            \<and> iterate (nearbyIter ex c now s) sw1 xs = Some sw')"
    using b
    by (auto simp: nearbyBody_def nearestNeighbors_def split: option.splits if_splits prod.splits)
  moreover have "swInv sw' \<and> swStatic sw sw'"
    if k: "knnCollect ex (s_lat s) (s_lon s) (knnLimit sw) sw [] cands = Some (sw1, items)"
      and it: "iterate (nearbyIter ex c now s) sw1 xs = Some sw'" for sw1 items xs
  proof -
    from knnCollect_only_fvals [OF k] have e: "sw1 = sw\<lparr> sw_fvals := sw_fvals sw1 \<rparr>" .
    from only_fvals_inv [OF e] i h have "swInv sw1" "\<not> sw_hitLimit sw1" "swStatic sw sw1"
      by simp_all
    with iterate_callback_inv [OF callbackOf_nearbyIter _ _ it] show ?thesis
      using swStatic_trans by blast
  qed
  ultimately show ?thesis
    using i iterate_callback_inv [OF callbackOf_nearbyIter i h] swStatic_refl by auto
qed

lemma footCursor_inv:
  "swInv sw \<Longrightarrow> footCursor sw
     = (if sw_numberItems sw = sw_limit sw then sw_cursor sw + sw_numberItems sw else 0)"
  by (simp add: footCursor_def swInv_def)

lemma closeWriter_RESP:
  "closeWriter RESP el sw =
     (if sw_OutputType sw = RESP
      then (if sw_output sw = outputCount then IntegerValue (sint (sw_count sw))
            else ArrayValue [IntegerValue (sint (footCursor sw)), ArrayValue (sw_values sw)])
      else sw_respOut sw)"
  by (auto simp: closeWriter_def writeFoot_def Let_def split: Type.splits)




lemma cmdNearby_parts:
  "cmdNearby ex c now ot s None cands el = Some (res, err) \<Longrightarrow> err = None \<Longrightarrow>
   \<exists>sw sw'. openWriter ex c ot (s\<lparr> s_cmd := ''nearby'' \<rparr>) False = Inr sw
      \<and> nearbyBody ex c now (s\<lparr> s_cmd := ''nearby'' \<rparr>) sw cands = Some sw'
      \<and> res = closeWriter ot el sw'"
  by (auto simp: cmdNearby_def Let_def split: sum.splits option.splits if_splits)

lemma cmdWithinOrIntersects_parts:
  "cmdWithinOrIntersects ex c now ot cmd s None cands el = Some (res, err) \<Longrightarrow> err = None \<Longrightarrow>
   \<exists>sw sw'. openWriter ex c ot (s\<lparr> s_cmd := cmd \<rparr>) False = Inr sw
      \<and> withinBody ex c now cmd (s\<lparr> s_cmd := cmd \<rparr>) sw cands = Some sw'
      \<and> res = closeWriter ot el sw'"
  by (auto simp: cmdWithinOrIntersects_def Let_def split: sum.splits option.splits if_splits)

lemma effectiveLimit_cmd [simp]: "effectiveLimit (s\<lparr> s_cmd := x \<rparr>) = effectiveLimit s"
  by (simp add: effectiveLimit_def)

lemma run_inv:
  assumes ow: "openWriter ex c ot s mv = Inr sw" and r: "swInv sw' \<and> swStatic sw sw'"
  shows "sw_OutputType sw' = ot \<and> sw_output sw' = s_output s \<and> sw_cursor sw' = s_cursor s
     \<and> sw_limit sw' = effectiveLimit s
     \<and> footCursor sw' = (if sw_numberItems sw' = sw_limit sw'
                          then s_cursor s + sw_numberItems sw' else 0)
     \<and> (ot = RESP \<longrightarrow> length (sw_values sw') = unat (sw_numberItems sw'))"
proof -
  from r have i: "swInv sw'" and st: "swStatic sw sw'" by simp_all
  have f: "footCursor sw' = (if sw_numberItems sw' = sw_limit sw'
                          then sw_cursor sw' + sw_numberItems sw' else 0)"
    using i by (rule footCursor_inv)
  have v: "sw_OutputType sw' = RESP \<longrightarrow> length (sw_values sw') = unat (sw_numberItems sw')"
    using i by (simp add: swInv_def)
  show ?thesis
    using openWriter_fresh(1-4) [OF ow] st f v by (simp add: swStatic_def)
qed



text \<open>
  C6. A candidate that fails the glob match (when the glob is consulted) or for which
  \<open>fieldMatch\<close> reports a failed WHERE, WHEREIN or WHEREEVAL filter is skipped:
  \<open>writeObject\<close> asks for the next candidate and leaves the matched count, the number of
  emitted items, the limit flag and both outputs as they were; only the scratch array
  \<open>fvals\<close> may differ. So the candidate uses up neither the cursor nor the limit.
\<close>

theorem writeObject_skips_failing:
  assumes "(\<not> p_ignoreGlobMatch opts \<and> \<not> fst (globMatch ex sw (p_id opts) (p_o opts)))
           \<or> (\<exists>sw1 nf. fieldMatch sw (p_fields opts) (p_o opts) = Some (sw1, nf, False))"
  shows "\<exists>sw'. writeObject ex sw opts = Some (sw', True)
           \<and> sw_count sw' = sw_count sw
           \<and> sw_numberItems sw' = sw_numberItems sw
           \<and> sw_hitLimit sw' = sw_hitLimit sw
           \<and> sw_values sw' = sw_values sw
           \<and> sw_wr sw' = sw_wr sw
           \<and> sw' = sw\<lparr> sw_fvals := sw_fvals sw' \<rparr>"
proof (cases "\<not> p_ignoreGlobMatch opts \<and> \<not> fst (globMatch ex sw (p_id opts) (p_o opts))")
  case True
  then show ?thesis
    by (auto simp: writeObject_def split: prod.splits)
next
  case False
  with assms obtain sw1 nf
    where f: "fieldMatch sw (p_fields opts) (p_o opts) = Some (sw1, nf, False)"
    by blast
  have e: "sw1 = sw\<lparr> sw_fvals := sw_fvals sw1 \<rparr>"
    using f by (rule fieldMatch_only_fvals)
  have "writeObject ex sw opts = Some (sw, True) \<or> writeObject ex sw opts = Some (sw1, True)"
    using f by (auto simp: writeObject_def split: prod.splits)
  then show ?thesis
  proof
    assume "writeObject ex sw opts = Some (sw, True)"
    then show ?thesis by simp
  next
    assume w: "writeObject ex sw opts = Some (sw1, True)"
    have "sw_count sw1 = sw_count sw" "sw_numberItems sw1 = sw_numberItems sw"
      "sw_hitLimit sw1 = sw_hitLimit sw" "sw_values sw1 = sw_values sw" "sw_wr sw1 = sw_wr sw"
      by (subst e, simp)+
    with w e show ?thesis by blast
  qed
qed

theorem writeObject_skips_failing_witness:
  "(\<not> p_ignoreGlobMatch (params0 ''b'' (pointObject 1 2 0))
      \<and> \<not> fst (globMatch ex0 (sw0 RESP outputIDs ''a'' 0 0) ''b'' (pointObject 1 2 0)))
   \<and> (\<exists>sw'. writeObject ex0 (sw0 RESP outputIDs ''a'' 0 0) (params0 ''b'' (pointObject 1 2 0))
               = Some (sw', True)
             \<and> sw_count sw' = 0 \<and> sw_numberItems sw' = 0 \<and> sw_values sw' = [])"
proof -
  have h: "\<not> p_ignoreGlobMatch (params0 ''b'' (pointObject 1 2 0))
      \<and> \<not> fst (globMatch ex0 (sw0 RESP outputIDs ''a'' 0 0)
                 (p_id (params0 ''b'' (pointObject 1 2 0))) (p_o (params0 ''b'' (pointObject 1 2 0))))"
    by (simp add: params0_def sw0_def newScanWriter_def globMatch_def ex0_def)
  have v: "sw_count (sw0 RESP outputIDs ''a'' 0 0) = 0"
    "sw_numberItems (sw0 RESP outputIDs ''a'' 0 0) = 0"
    "sw_values (sw0 RESP outputIDs ''a'' 0 0) = []"
    by (simp_all add: sw0_def newScanWriter_def)
  from writeObject_skips_failing [of "params0 ''b'' (pointObject 1 2 0)" ex0
      "sw0 RESP outputIDs ''a'' 0 0", OF disjI1, OF h]
  show ?thesis using h v by (auto simp: params0_def)
qed

lemma writeObject_RESP_points:
  assumes "sw_OutputType sw = RESP" "sw_output sw = outputPoints"
    and "writeObject ex sw opts = Some (sw', k)" "sw_values sw' \<noteq> sw_values sw"
  shows "\<exists>rest. sw_values sw' = sw_values sw
            @ [ArrayValue (StringValue (p_id opts) # respPoint (CalculatedPoint (p_o opts)) # rest)]"
  using assms
  by (auto simp: writeObject_def Let_def fieldMatch_fields writeObjectRESP_def
      split: prod.splits option.splits if_splits)

text \<open>
  C10. \<open>Position.ExternalJSON\<close> prints the members \<open>lat\<close> and \<open>lon\<close>, and the member
  \<open>z\<close> exactly when \<open>Z\<close> is not 0. When \<open>writeObject\<close> appends a record in RESP mode
  with the output \<open>POINTS\<close>, the record's second element is the array \<open>[lat, lon, z]\<close>
  when \<open>Z\<close> is not 0 and the array \<open>[lat, lon]\<close> otherwise. So two positions with the
  same \<open>X\<close> and \<open>Y\<close> and \<open>Z = 0\<close> are printed alike, whether they were read with two
  or three coordinates.
\<close>

theorem point_serialization_omits_zero_z:
  \<open>ExternalJSON ex p
     = ''{"lat":'' @ FormatFloat ex (Y p) @ '',"lon":'' @ FormatFloat ex (X p)
       @ (if Z p \<noteq> 0 then '',"z":'' @ FormatFloat ex (Z p) else []) @ ''}''
   \<and> (sw_OutputType sw = RESP \<and> sw_output sw = outputPoints
        \<and> writeObject ex sw opts = Some (sw', k) \<and> sw_values sw' \<noteq> sw_values sw
      \<longrightarrow> (\<exists>rest. sw_values sw' = sw_values sw
            @ [ArrayValue (StringValue (p_id opts)
                 # ArrayValue ([FloatValue (Y (CalculatedPoint (p_o opts))),
                                FloatValue (X (CalculatedPoint (p_o opts)))]
                               @ (if Z (CalculatedPoint (p_o opts)) \<noteq> 0
                                  then [FloatValue (Z (CalculatedPoint (p_o opts)))] else []))
                 # rest)]))
   \<and> (X p = X q \<and> Y p = Y q \<and> Z p = 0 \<and> Z q = 0
      \<longrightarrow> ExternalJSON ex p = ExternalJSON ex q \<and> respPoint p = respPoint q)\<close>
proof (intro conjI impI)
  show \<open>ExternalJSON ex p
     = ''{"lat":'' @ FormatFloat ex (Y p) @ '',"lon":'' @ FormatFloat ex (X p)
       @ (if Z p \<noteq> 0 then '',"z":'' @ FormatFloat ex (Z p) else []) @ ''}''\<close>
    by (simp add: ExternalJSON_def)
next
  assume a: "sw_OutputType sw = RESP \<and> sw_output sw = outputPoints
        \<and> writeObject ex sw opts = Some (sw', k) \<and> sw_values sw' \<noteq> sw_values sw"
  then obtain rest where "sw_values sw' = sw_values sw
            @ [ArrayValue (StringValue (p_id opts) # respPoint (CalculatedPoint (p_o opts)) # rest)]"
    using writeObject_RESP_points by blast
  then show "\<exists>rest. sw_values sw' = sw_values sw
            @ [ArrayValue (StringValue (p_id opts)
                 # ArrayValue ([FloatValue (Y (CalculatedPoint (p_o opts))),
                                FloatValue (X (CalculatedPoint (p_o opts)))]
                               @ (if Z (CalculatedPoint (p_o opts)) \<noteq> 0
                                  then [FloatValue (Z (CalculatedPoint (p_o opts)))] else []))
                 # rest)]"
    by (auto simp: respPoint_def)
next
  assume "X p = X q \<and> Y p = Y q \<and> Z p = 0 \<and> Z q = 0"
  then show "ExternalJSON ex p = ExternalJSON ex q" by (simp add: ExternalJSON_def)
next
  assume "X p = X q \<and> Y p = Y q \<and> Z p = 0 \<and> Z q = 0"
  then show "respPoint p = respPoint q" by (simp add: respPoint_def)
qed

theorem point_serialization_omits_zero_z_witness:
  \<open>ExternalJSON ex0 \<lparr> X = 4, Y = 3, Z = 0 \<rparr> = ''{"lat":1,"lon":1}''
   \<and> (\<exists>sw' k rest.
         writeObject ex0 (sw0 RESP outputPoints [] 0 0) (params0 ''b'' (pointObject 3 4 5))
           = Some (sw', k)
         \<and> sw_values sw'
             = [ArrayValue (StringValue ''b''
                  # ArrayValue [FloatValue 3, FloatValue 4, FloatValue 5] # rest)])\<close>
proof -
  let ?sw = "sw0 RESP outputPoints [] 0 0"
  let ?opts = "params0 ''b'' (pointObject 3 4 5)"
  have sw: "sw_OutputType ?sw = RESP" "sw_output ?sw = outputPoints" "sw_values ?sw = []"
    by (simp_all add: sw0_def newScanWriter_def)
  have "\<exists>sw' k. writeObject ex0 ?sw ?opts = Some (sw', k) \<and> sw_values sw' \<noteq> []"
    by (simp add: sw0_def newScanWriter_def params0_def writeObject_def globMatch_def
        fieldMatch_def hasFieldsOutput_def filtersMatch_def fvalsValue_def fieldValue_def
        writeObjectRESP_def Let_def limitItems_def ex0_def) blast
  then obtain sw' k where w: "writeObject ex0 ?sw ?opts = Some (sw', k)"
    and v: "sw_values sw' \<noteq> sw_values ?sw"
    using sw(3) by auto
  note t = point_serialization_omits_zero_z
    [where ex = ex0 and p = "\<lparr> X = 4, Y = 3, Z = 0 \<rparr>" and sw = ?sw and opts = ?opts
       and sw' = sw' and k = k]
  from t have j: \<open>ExternalJSON ex0 \<lparr> X = 4, Y = 3, Z = 0 \<rparr> = ''{"lat":1,"lon":1}''\<close>
    by (simp add: ex0_def)
  from t sw w v obtain rest where "sw_values sw' = sw_values ?sw
            @ [ArrayValue (StringValue (p_id ?opts)
                 # ArrayValue ([FloatValue (Y (CalculatedPoint (p_o ?opts))),
                                FloatValue (X (CalculatedPoint (p_o ?opts)))]
                               @ (if Z (CalculatedPoint (p_o ?opts)) \<noteq> 0
                                  then [FloatValue (Z (CalculatedPoint (p_o ?opts)))] else []))
                 # rest)]"
    by blast
  then have "sw_values sw'
      = [ArrayValue (StringValue ''b'' # ArrayValue [FloatValue 3, FloatValue 4, FloatValue 5] # rest)]"
    by (simp add: sw(3) params0_def pointObject_def)
  with w j show ?thesis by blast
qed

lemma hasExpired_noExpiry [simp]: "\<not> hasExpired (noExpiry c) now key i"
  by (simp add: hasExpired_def noExpiry_def)

lemma iterate_nearbyIter_filter:
  "iterate (nearbyIter ex c now s) sw xs
     = iterate (nearbyIter ex (noExpiry c) now s) sw
         (filter (\<lambda>x. \<not> hasExpired c now (s_key s) (fst (fst x))) xs)"
proof (induction xs arbitrary: sw)
  case Nil
  then show ?case by simp
next
  case (Cons x xs)
  obtain i ob flds d where x: "x = ((i, ob, flds), d)" by (cases x) auto
  show ?case
  proof (cases "hasExpired c now (s_key s) i")
    case True
    then show ?thesis using Cons.IH x by (simp add: nearbyIter_def)
  next
    case False
    then have "nearbyIter ex c now s sw x = nearbyIter ex (noExpiry c) now s sw x"
      using x by (simp add: nearbyIter_def)
    then show ?thesis using Cons.IH x False
      by (simp split: option.splits prod.splits)
  qed
qed

lemma iterate_withinIter_filter:
  "iterate (withinIter ex c now s) sw xs
     = iterate (withinIter ex (noExpiry c) now s) sw
         (filter (\<lambda>x. \<not> hasExpired c now (s_key s) (fst x)) xs)"
proof (induction xs arbitrary: sw)
  case Nil
  then show ?case by simp
next
  case (Cons x xs)
  obtain i ob flds where x: "x = (i, ob, flds)" by (cases x) auto
  show ?case
  proof (cases "hasExpired c now (s_key s) i")
    case True
    then show ?thesis using Cons.IH x by (simp add: withinIter_def)
  next
    case False
    then have "withinIter ex c now s sw x = withinIter ex (noExpiry c) now s sw x"
      using x by (simp add: withinIter_def)
    then show ?thesis using Cons.IH x False
      by (simp split: option.splits prod.splits)
  qed
qed

lemma writeObject_values:
  assumes "writeObject ex sw p = Some (sw', k)"
  shows "sw_values sw' = sw_values sw \<or> (\<exists>v. sw_values sw' = sw_values sw @ [v] \<and> valueId v = p_id p)"
  using assms
  by (auto simp: writeObject_def Let_def fieldMatch_fields writeObjectRESP_def writeObjectJSON_fields
      split: prod.splits option.splits if_splits Type.splits)

lemma nearbyIter_idsLive:
  assumes "idsLive c now (s_key s) sw" "nearbyIter ex c now s sw x = Some (sw', k)"
  shows "idsLive c now (s_key s) sw'"
proof -
  obtain i ob flds d where x: "x = ((i, ob, flds), d)" by (cases x) auto
  show ?thesis
  proof (cases "hasExpired c now (s_key s) i")
    case True
    then show ?thesis using assms x by (simp add: nearbyIter_def)
  next
    case False
    then obtain p where w: "writeObject ex sw p = Some (sw', k)" and p: "p_id p = i"
      using assms(2) x by (auto simp: nearbyIter_def Let_def)
    from writeObject_values [OF w] show ?thesis
      using assms(1) False p by (auto simp: idsLive_def)
  qed
qed

lemma withinIter_idsLive:
  assumes "idsLive c now (s_key s) sw" "withinIter ex c now s sw x = Some (sw', k)"
  shows "idsLive c now (s_key s) sw'"
proof -
  obtain i ob flds where x: "x = (i, ob, flds)" by (cases x) auto
  show ?thesis
  proof (cases "hasExpired c now (s_key s) i")
    case True
    then show ?thesis using assms x by (simp add: withinIter_def)
  next
    case False
    then obtain p where w: "writeObject ex sw p = Some (sw', k)" and p: "p_id p = i"
      using assms(2) x by (auto simp: withinIter_def Let_def)
    from writeObject_values [OF w] show ?thesis
      using assms(1) False p by (auto simp: idsLive_def)
  qed
qed

lemma iterate_keeps:
  assumes step: "\<And>s x s' k. Q s \<Longrightarrow> f s x = Some (s', k) \<Longrightarrow> Q s'"
    and "Q s" "iterate f s xs = Some s'"
  shows "Q s'"
  by (rule iterate_invariant [where P = Q and Q = Q and f = f, OF _ assms(2) assms(2) assms(3)])
     (use step in blast)

lemma nearbyBody_idsLive:
  assumes b: "nearbyBody ex c now s sw cands = Some sw'" and v: "sw_values sw = []"
  shows "idsLive c now (s_key s) sw'"
proof -
  have i0: "idsLive c now (s_key s) sw" using v by (simp add: idsLive_def)
  have "sw' = sw
      \<or> iterate (nearbyIter ex c now s) sw (map (\<lambda>x. (x, None)) cands) = Some sw'
      \<or> (\<exists>sw1 items xs. knnCollect ex (s_lat s) (s_lon s) (knnLimit sw) sw [] cands = Some (sw1, items)
            \<and> iterate (nearbyIter ex c now s) sw1 xs = Some sw')"
    using b
    by (auto simp: nearbyBody_def nearestNeighbors_def split: option.splits if_splits prod.splits)
  moreover have "idsLive c now (s_key s) sw'"
    if k: "knnCollect ex (s_lat s) (s_lon s) (knnLimit sw) sw [] cands = Some (sw1, items)"
      and it: "iterate (nearbyIter ex c now s) sw1 xs = Some sw'" for sw1 items xs
  proof -
    from knnCollect_only_fvals [OF k] have e: "sw1 = sw\<lparr> sw_fvals := sw_fvals sw1 \<rparr>" .
    have "sw_values sw1 = sw_values sw" by (subst e) simp
    then have l1: "idsLive c now (s_key s) sw1" using v by (simp add: idsLive_def)
    show ?thesis
      by (rule iterate_keeps [where Q = "idsLive c now (s_key s)" and f = "nearbyIter ex c now s",
            OF nearbyIter_idsLive l1 it])
  qed
  moreover have "idsLive c now (s_key s) sw'"
    if "iterate (nearbyIter ex c now s) sw (map (\<lambda>x. (x, None)) cands) = Some sw'"
    by (rule iterate_keeps [where Q = "idsLive c now (s_key s)" and f = "nearbyIter ex c now s",
          OF nearbyIter_idsLive i0 that])
  ultimately show ?thesis using i0 by blast
qed

lemma withinBody_idsLive:
  assumes b: "withinBody ex c now cmd s sw cands = Some sw'" and v: "sw_values sw = []"
  shows "idsLive c now (s_key s) sw'"
proof -
  have i0: "idsLive c now (s_key s) sw" using v by (simp add: idsLive_def)
  have "sw' = sw \<or> iterate (withinIter ex c now s) sw cands = Some sw'"
    using b by (auto simp: withinBody_def split: option.splits if_splits)
  moreover have "idsLive c now (s_key s) sw'"
    if "iterate (withinIter ex c now s) sw cands = Some sw'"
    by (rule iterate_keeps [where Q = "idsLive c now (s_key s)" and f = "withinIter ex c now s",
          OF withinIter_idsLive i0 that])
  ultimately show ?thesis using i0 by blast
qed


lemma search_RESP_result:
  assumes ow: "openWriter ex c RESP s mv = Inr sw" and st: "swInv sw' \<and> swStatic sw sw'"
    and out: "s_output s \<noteq> outputCount" and live: "idsLive c now (s_key s) sw'"
    and h: "hasExpired c now (s_key s) i"
  shows "\<exists>cur vs. closeWriter RESP el sw' = ArrayValue [IntegerValue cur, ArrayValue vs]
           \<and> i \<notin> valueId ` set vs"
proof -
  from run_inv [OF ow st] have t: "sw_OutputType sw' = RESP" "sw_output sw' = s_output s"
    by simp_all
  have "closeWriter RESP el sw'
      = ArrayValue [IntegerValue (sint (footCursor sw')), ArrayValue (sw_values sw')]"
    using t out by (simp add: closeWriter_RESP)
  moreover have "i \<notin> valueId ` set (sw_values sw')"
    using live h by (auto simp: idsLive_def)
  ultimately show ?thesis by blast
qed

text \<open>
  C9. Let the expiration index hold a deadline for the id \<open>i\<close> under the key of the search,
  and let the deadline lie before \<open>now\<close>. Then the callbacks of \<open>NEARBY\<close> and of
  \<open>WITHIN\<close>/\<open>INTERSECTS\<close> pass over a candidate with the id \<open>i\<close>: the writer stays as
  it is and the iteration goes on. Every loop over these callbacks gives the result it would
  give with the expired candidates left out and the index empty. And the array of results
  of any of the three commands in RESP mode holds no element with the id \<open>i\<close>. The index
  is only read: the collection still holds the item.
\<close>

theorem searches_exclude_expired:
  assumes exp: "c_expires c (s_key s) = Some m" "m i = Some deadline" "deadline < now"
  shows "nearbyIter ex c now s sw ((i, ob, flds), d) = Some (sw, True)
     \<and> withinIter ex c now s sw (i, ob, flds) = Some (sw, True)
     \<and> iterate (nearbyIter ex c now s) sw xs
         = iterate (nearbyIter ex (noExpiry c) now s) sw
             (filter (\<lambda>x. \<not> hasExpired c now (s_key s) (fst (fst x))) xs)
     \<and> iterate (withinIter ex c now s) sw ys
         = iterate (withinIter ex (noExpiry c) now s) sw
             (filter (\<lambda>x. \<not> hasExpired c now (s_key s) (fst x)) ys)
     \<and> (s_output s \<noteq> outputCount
          \<and> (cmdNearby ex c now RESP s None cands el = Some (res, None)
             \<or> cmdWithin ex c now RESP s None cands el = Some (res, None)
             \<or> cmdIntersects ex c now RESP s None cands el = Some (res, None))
        \<longrightarrow> (\<exists>cur vs. res = ArrayValue [IntegerValue cur, ArrayValue vs]
                \<and> i \<notin> valueId ` set vs))"
proof -
  have h: "hasExpired c now (s_key s) i"
    using exp by (simp add: hasExpired_def)
  have a: "nearbyIter ex c now s sw ((i, ob, flds), d) = Some (sw, True)"
    using h by (simp add: nearbyIter_def)
  have b: "withinIter ex c now s sw (i, ob, flds) = Some (sw, True)"
    using h by (simp add: withinIter_def)
  have e: "\<exists>cur vs. res = ArrayValue [IntegerValue cur, ArrayValue vs] \<and> i \<notin> valueId ` set vs"
    if out: "s_output s \<noteq> outputCount"
      and run: "cmdNearby ex c now RESP s None cands el = Some (res, None)
             \<or> cmdWithin ex c now RESP s None cands el = Some (res, None)
             \<or> cmdIntersects ex c now RESP s None cands el = Some (res, None)"
    using run
  proof (elim disjE)
    assume "cmdNearby ex c now RESP s None cands el = Some (res, None)"
    from cmdNearby_parts [OF this] obtain sw1 sw'
      where ow: "openWriter ex c RESP (s\<lparr> s_cmd := ''nearby'' \<rparr>) False = Inr sw1"
      and bd: "nearbyBody ex c now (s\<lparr> s_cmd := ''nearby'' \<rparr>) sw1 cands = Some sw'"
      and r: "res = closeWriter RESP el sw'" by auto
    from nearbyBody_inv [OF bd openWriter_inv [OF ow] openWriter_fresh(6) [OF ow]]
    have st: "swInv sw' \<and> swStatic sw1 sw'" .
    from nearbyBody_idsLive [OF bd openWriter_fresh(7) [OF ow]]
    have live: "idsLive c now (s_key (s\<lparr> s_cmd := ''nearby'' \<rparr>)) sw'" .
    show ?thesis
      using search_RESP_result [OF ow st _ live] out h r by simp
  next
    assume "cmdWithin ex c now RESP s None cands el = Some (res, None)"
    then have "cmdWithinOrIntersects ex c now RESP ''within'' s None cands el = Some (res, None)"
      by (simp add: cmdWithin_def)
    from cmdWithinOrIntersects_parts [OF this] obtain sw1 sw'
      where ow: "openWriter ex c RESP (s\<lparr> s_cmd := ''within'' \<rparr>) False = Inr sw1"
      and bd: "withinBody ex c now ''within'' (s\<lparr> s_cmd := ''within'' \<rparr>) sw1 cands = Some sw'"
      and r: "res = closeWriter RESP el sw'" by auto
    from withinBody_inv [OF bd openWriter_inv [OF ow] openWriter_fresh(6) [OF ow]]
    have st: "swInv sw' \<and> swStatic sw1 sw'" .
    from withinBody_idsLive [OF bd openWriter_fresh(7) [OF ow]]
    have live: "idsLive c now (s_key (s\<lparr> s_cmd := ''within'' \<rparr>)) sw'" .
    show ?thesis
      using search_RESP_result [OF ow st _ live] out h r by simp
  next
    assume "cmdIntersects ex c now RESP s None cands el = Some (res, None)"
    then have "cmdWithinOrIntersects ex c now RESP ''intersects'' s None cands el = Some (res, None)"
      by (simp add: cmdIntersects_def)
    from cmdWithinOrIntersects_parts [OF this] obtain sw1 sw'
      where ow: "openWriter ex c RESP (s\<lparr> s_cmd := ''intersects'' \<rparr>) False = Inr sw1"
      and bd: "withinBody ex c now ''intersects'' (s\<lparr> s_cmd := ''intersects'' \<rparr>) sw1 cands = Some sw'"
      and r: "res = closeWriter RESP el sw'" by auto
    from withinBody_inv [OF bd openWriter_inv [OF ow] openWriter_fresh(6) [OF ow]]
    have st: "swInv sw' \<and> swStatic sw1 sw'" .
    from withinBody_idsLive [OF bd openWriter_fresh(7) [OF ow]]
    have live: "idsLive c now (s_key (s\<lparr> s_cmd := ''intersects'' \<rparr>)) sw'" .
    show ?thesis
      using search_RESP_result [OF ow st _ live] out h r by simp
  qed
  show ?thesis
    using a b e iterate_nearbyIter_filter iterate_withinIter_filter by blast
qed

theorem searches_exclude_expired_witness:
  "c_expires c0 ''fleet'' = Some [''a'' \<mapsto> 50] \<and> (50::int) < 100
   \<and> cmdNearby ex0 c0 100 RESP (s0 outputIDs 0 0) None (col_items col0) []
       = Some (ArrayValue [IntegerValue 0, ArrayValue [StringValue ''b'']], None)
   \<and> ''a'' \<notin> valueId ` set [StringValue ''b'']"
proof -
  let ?s = "s0 outputIDs 0 0"
  have e: "c_expires c0 (s_key ?s) = Some [''a'' \<mapsto> 50]" "[''a'' \<mapsto> (50::int)] ''a'' = Some 50"
    "(50::int) < 100" "s_output ?s \<noteq> outputCount"
    by (simp_all add: c0_def s0_def)
  have r: "cmdNearby ex0 c0 100 RESP ?s None (col_items col0) []
       = Some (ArrayValue [IntegerValue 0, ArrayValue [StringValue ''b'']], None)"
    by (simp add: cmdNearby_def openWriter_def newScanWriter_def s0_def c0_def col0_def getCol_def
        writeHead_def nearbyBody_def nearbyIter_def hasExpired_def writeObject_def globMatch_def
        fieldMatch_def hasFieldsOutput_def filtersMatch_def fieldValue_def writeObjectRESP_def
        closeWriter_def writeFoot_def footCursor_def Let_def limitItems_def)
  from searches_exclude_expired [OF e(1-3), where ex = ex0 and cands = "col_items col0"
      and el = "[]" and res = "ArrayValue [IntegerValue 0, ArrayValue [StringValue ''b'']]"]
  have "\<exists>cur vs. ArrayValue [IntegerValue 0, ArrayValue [StringValue ''b'']]
            = ArrayValue [IntegerValue cur, ArrayValue vs] \<and> ''a'' \<notin> valueId ` set vs"
    using e(4) r by blast
  then have "''a'' \<notin> valueId ` set [StringValue ''b'']" by auto
  then show ?thesis using e r by (simp add: s0_def)
qed

lemma globMatch_fvals [simp]: "globMatch ex (sw\<lparr> sw_fvals := v \<rparr>) i ob = globMatch ex sw i ob"
  by (simp add: globMatch_def)

lemma filtersMatch_fvals [simp]:
  "filtersMatch (sw\<lparr> sw_fvals := v \<rparr>) val flds ob = filtersMatch sw val flds ob"
  by (simp add: filtersMatch_def cong: option.case_cong bool.case_cong)

lemma fieldMatch_fvals:
  "map_option (snd \<circ> snd) (fieldMatch (sw\<lparr> sw_fvals := v \<rparr>) flds ob)
     = map_option (snd \<circ> snd) (fieldMatch sw flds ob)"
  by (simp add: fieldMatch_def hasFieldsOutput_def Let_def split: option.splits)

lemma passesFilters_fvals [simp]:
  "passesFilters ex (sw\<lparr> sw_fvals := v \<rparr>) x = passesFilters ex sw x"
proof -
  obtain i ob flds where x: "x = (i, ob, flds)" by (cases x) auto
  have "map_option (snd \<circ> snd) (fieldMatch (sw\<lparr> sw_fvals := v \<rparr>) flds ob)
     = map_option (snd \<circ> snd) (fieldMatch sw flds ob)" by (rule fieldMatch_fvals)
  then show ?thesis
    unfolding passesFilters_def x
    by (cases "fieldMatch (sw\<lparr> sw_fvals := v \<rparr>) flds ob"; cases "fieldMatch sw flds ob")
       (auto split: prod.splits)
qed

lemma knnCollect_step:
  "fieldMatch sw flds ob = Some (sw2, nf, ok) \<Longrightarrow>
   knnCollect ex lat lon limit sw acc ((i, ob, flds) # cs)
     = (if \<not> ok \<or> \<not> fst (globMatch ex sw2 i ob) then knnCollect ex lat lon limit sw2 acc cs
        else if \<not> snd (globMatch ex sw2 i ob)
        then Some (sw2, acc @ [toIterItem ex lat lon (i, ob, flds)])
        else if int (length (acc @ [toIterItem ex lat lon (i, ob, flds)])) < limit
        then knnCollect ex lat lon limit sw2 (acc @ [toIterItem ex lat lon (i, ob, flds)]) cs
        else Some (sw2, acc @ [toIterItem ex lat lon (i, ob, flds)]))"
  by (simp add: Let_def toIterItem_def split: prod.splits)

lemma knnCollect_prefix:
  assumes "knnCollect ex lat lon limit sw acc cs = Some (sw1, items)"
    and "sw_globEverything sw \<or> \<not> sw_globSingle sw"
  shows "items = acc @ map (toIterItem ex lat lon)
                   (take (max 1 (nat (limit - int (length acc)))) (filter (passesFilters ex sw) cs))"
  using assms
proof (induction cs arbitrary: sw acc)
  case Nil
  then show ?case by simp
next
  case (Cons x cs)
  obtain i ob flds where x: "x = (i, ob, flds)" by (cases x) auto
  from Cons.prems(1) x obtain sw2 nf ok where f: "fieldMatch sw flds ob = Some (sw2, nf, ok)"
    by (auto split: option.splits)
  have e: "sw2 = sw\<lparr> sw_fvals := sw_fvals sw2 \<rparr>" using f by (rule fieldMatch_only_fvals)
  have g2: "sw_globEverything sw2 \<or> \<not> sw_globSingle sw2"
    using Cons.prems(2) by (subst e, subst (2) e) simp
  have pf: "passesFilters ex sw2 = passesFilters ex sw"
    by (subst e) (simp add: fun_eq_iff)
  have gm: "globMatch ex sw2 i ob = globMatch ex sw i ob"
    by (subst e) simp
  have kg: "snd (globMatch ex sw i ob)"
    using Cons.prems(2) by (auto simp: globMatch_def Let_def)
  show ?case
  proof (cases "passesFilters ex sw x")
    case False
    then have "\<not> ok \<or> \<not> fst (globMatch ex sw2 i ob)"
      using x f gm by (auto simp: passesFilters_def)
    then have "knnCollect ex lat lon limit sw2 acc cs = Some (sw1, items)"
      using Cons.prems(1) unfolding x knnCollect_step [OF f] by (simp del: knnCollect.simps)
    from Cons.IH [OF this g2] show ?thesis using False pf by simp
  next
    case True
    then have ok: "ok" and m: "fst (globMatch ex sw i ob)"
      using x f by (auto simp: passesFilters_def)
    let ?acc' = "acc @ [toIterItem ex lat lon x]"
    show ?thesis
    proof (cases "int (length ?acc') < limit")
      case True
      then have "knnCollect ex lat lon limit sw2 ?acc' cs = Some (sw1, items)"
        using Cons.prems(1) ok m kg unfolding x knnCollect_step [OF f] gm
        by (simp del: knnCollect.simps)
      from Cons.IH [OF this g2]
      have "items = ?acc' @ map (toIterItem ex lat lon)
                   (take (max 1 (nat (limit - int (length ?acc')))) (filter (passesFilters ex sw) cs))"
        using pf by simp
      moreover have "max 1 (nat (limit - int (length acc)))
          = Suc (max 1 (nat (limit - int (length ?acc'))))"
        using True by auto
      ultimately show ?thesis using \<open>passesFilters ex sw x\<close> by simp
    next
      case False
      then have "items = ?acc'"
        using Cons.prems(1) ok m kg unfolding x knnCollect_step [OF f] gm
        by (simp del: knnCollect.simps)
      moreover have "max 1 (nat (limit - int (length acc))) = 1"
        using False by auto
      ultimately show ?thesis using \<open>passesFilters ex sw x\<close> by simp
    qed
  qed
qed

lemma knnLimit_in_range:
  "unat (sw_cursor sw) + unat (sw_limit sw) < 2 ^ 63
   \<Longrightarrow> knnLimit sw = int (unat (sw_cursor sw) + unat (sw_limit sw))"
proof -
  have r: "signed_take_bit 63 (int n) = int n" if "n < 2 ^ 63" for n :: nat
  proof (rule signed_take_bit_int_eq_self)
    show "- (2 ^ 63) \<le> int n" by (rule order_trans [of _ 0]) simp_all
    show "int n < 2 ^ 63" using that by simp
  qed
  have len64: "LENGTH(64) - Suc 0 = 63" by simp
  assume a: "unat (sw_cursor sw) + unat (sw_limit sw) < 2 ^ 63"
  then have "unat (sw_cursor sw) + unat (sw_limit sw) < 2 ^ LENGTH(64)" by simp
  then have u: "unat (sw_cursor sw + sw_limit sw) = unat (sw_cursor sw) + unat (sw_limit sw)"
    by (simp only: unat_add_lem)
  have "uint (sw_cursor sw + sw_limit sw) = int (unat (sw_cursor sw + sw_limit sw))"
    by simp
  then have v: "uint (sw_cursor sw + sw_limit sw) = int (unat (sw_cursor sw) + unat (sw_limit sw))"
    using u by simp
  have "sint (sw_cursor sw + sw_limit sw)
      = signed_take_bit (LENGTH(64) - Suc 0) (uint (sw_cursor sw + sw_limit sw))"
    by (rule sint_uint)
  also have "\<dots> = uint (sw_cursor sw + sw_limit sw)"
    unfolding v by (simp only: r [OF a] len64)
  finally show ?thesis using v by (simp add: knnLimit_def)
qed


lemma knn_collects_and_sorts:
  assumes nn: "nearestNeighbors ex sw lat lon iter cands = Some sw'"
    and g: "sw_globEverything sw \<or> \<not> sw_globSingle sw"
    and r: "unat (sw_cursor sw) + unat (sw_limit sw) < 2 ^ 63" and l: "sw_limit sw \<noteq> 0"
  shows "\<exists>sw1 items.
           sw1 = sw\<lparr> sw_fvals := sw_fvals sw1 \<rparr>
         \<and> items = map (toIterItem ex lat lon)
                     (take (unat (sw_cursor sw) + unat (sw_limit sw))
                        (filter (passesFilters ex sw) cands))
         \<and> sorted (map it_dist (sortByDist items))
         \<and> mset (sortByDist items) = mset items
         \<and> iterate iter sw1
              (map (\<lambda>it. ((it_id it, it_o it, it_fields it), Some (it_dist it)))
                 (sortByDist items)) = Some sw'"
proof -
  from nn obtain sw1 items
    where k: "knnCollect ex lat lon (knnLimit sw) sw [] cands = Some (sw1, items)"
      and it: "iterate iter sw1
              (map (\<lambda>it. ((it_id it, it_o it, it_fields it), Some (it_dist it)))
                 (sortByDist items)) = Some sw'"
    by (auto simp: nearestNeighbors_def split: option.splits)
  define n where "n = unat (sw_cursor sw) + unat (sw_limit sw)"
  have kl: "knnLimit sw = int n"
    unfolding n_def by (rule knnLimit_in_range [OF r])
  have "unat (sw_limit sw) \<noteq> 0" using l by (simp add: unat_eq_0)
  then have pos: "0 < n" by (simp add: n_def)
  have "max 1 (nat (knnLimit sw - int (length ([]::iterItem list)))) = n"
    unfolding kl using pos by simp
  with knnCollect_prefix [OF k g]
  have "items = map (toIterItem ex lat lon) (take n (filter (passesFilters ex sw) cands))"
    by simp
  then have "items = map (toIterItem ex lat lon)
                     (take (unat (sw_cursor sw) + unat (sw_limit sw))
                        (filter (passesFilters ex sw) cands))"
    by (simp only: n_def)
  moreover have "sorted (map it_dist (sortByDist items))"
    by (simp add: sortByDist_def)
  moreover have "mset (sortByDist items) = mset items"
    by (simp add: sortByDist_def)
  ultimately show ?thesis
    using knnCollect_only_fvals [OF k] it by blast
qed

lemma nearby_point_needs_limit:
  "\<not> s_ulimit t \<or> s_usparse t \<Longrightarrow>
   searchArgsPoint ex ''nearby'' t slat slon None = Inl (errInvalidArgument ex slat)"
  by (auto simp: searchArgsPoint_def Let_def)


section \<open>Properties of the hook registry\<close>




lemma hookOpen_fields [simp]:
  "hook_Key (hookOpen ex h) = hook_Key h" "hook_Name (hookOpen ex h) = hook_Name h"
  "hook_Endpoints (hookOpen ex h) = hook_Endpoints h" "hook_Metas (hookOpen ex h) = hook_Metas h"
  "hook_Message (hookOpen ex h) = hook_Message h" "hook_opened (hookOpen ex h)"
  by (simp_all add: hookOpen_def)







section \<open>Properties of the shrink\<close>

text \<open>A shrink that starts does rewrite the file: on the example it ends with 237 bytes.\<close>

lemma aofshrink_rewrites:
  "\<exists>c'. aofshrink ex0 ioOK 0 cHooked = Returned c' \<and> \<not> c_shrinking c' \<and> c_aofsz c' = 237"
  by (simp add: aofshrink_def aofshrinkBegin_def aofshrinkEnd_def cHooked_def setHook0_def cmdSetHook_def
      sFence_def s0_def newScanWriter_def c0_def getCol_def Let_def msg0_def sortedMetas_def
      hookOpen_def rewrite_def ioOK_def col0_def batches.simps maxids_def copyKeys.simps
      fileWrite_def fileSync_def shrinkSwap_def maxchunk_def setValues_def exTokens_def
      objTokens_def pointObject_def encodeRecord_def crlf_def hookValues_def fenceTokens_def
      ex0_def FormatUint.simps)

text \<open>
  C4. While the flag \<open>shrinking\<close> is set, \<open>aofshrink\<close> returns at its guard with the
  controller as it was: the shrink log, the live file and everything else are untouched.
  A shrink that does start sets the flag (and empties the shrink log) before it releases
  the lock, so another \<open>aofshrink\<close> on the state it leaves returns at the guard, whatever
  its file operations would do.
\<close>

theorem aofshrink_while_shrinking:
  "(c_shrinking c \<longrightarrow> aofshrink ex io now c = Returned c \<and> aofshrinkBegin c = (c, False))
   \<and> (aofshrinkBegin c = (c', True)
        \<longrightarrow> c_shrinking c' \<and> c_shrinklog c' = [] \<and> aofshrink ex io' now' c' = Returned c')"
proof (intro conjI impI)
  assume "c_shrinking c"
  then show "aofshrink ex io now c = Returned c" "aofshrinkBegin c = (c, False)"
    by (simp_all add: aofshrink_def aofshrinkBegin_def)
next
  assume b: "aofshrinkBegin c = (c', True)"
  then have e: "c' = c\<lparr> c_shrinking := True, c_shrinklog := [] \<rparr>"
    by (auto simp: aofshrinkBegin_def split: if_splits)
  show "c_shrinking c'" "c_shrinklog c' = []"
    by (simp_all add: e)
  then show "aofshrink ex io' now' c' = Returned c'"
    by (simp add: aofshrink_def aofshrinkBegin_def)
qed

theorem aofshrink_while_shrinking_witness:
  "c_shrinking (c0\<lparr> c_shrinking := True, c_shrinklog := [[''set'', ''k'', ''a'']] \<rparr>)
   \<and> aofshrink ex0 ioOK 0 (c0\<lparr> c_shrinking := True, c_shrinklog := [[''set'', ''k'', ''a'']] \<rparr>)
       = Returned (c0\<lparr> c_shrinking := True, c_shrinklog := [[''set'', ''k'', ''a'']] \<rparr>)
   \<and> aofshrinkBegin c0 = (c0\<lparr> c_shrinking := True, c_shrinklog := [] \<rparr>, True)
   \<and> aofshrink ex0 ioOK 0 (c0\<lparr> c_shrinking := True, c_shrinklog := [] \<rparr>)
       = Returned (c0\<lparr> c_shrinking := True, c_shrinklog := [] \<rparr>)"
proof -
  have b: "aofshrinkBegin c0 = (c0\<lparr> c_shrinking := True, c_shrinklog := [] \<rparr>, True)"
    by (simp add: aofshrinkBegin_def c0_def)
  have s: "c_shrinking (c0\<lparr> c_shrinking := True, c_shrinklog := [[''set'', ''k'', ''a'']] \<rparr>)"
    by simp
  from aofshrink_while_shrinking
    [where c = "c0\<lparr> c_shrinking := True, c_shrinklog := [[''set'', ''k'', ''a'']] \<rparr>"
       and ex = ex0 and io = ioOK and now = 0]
    aofshrink_while_shrinking
    [where c = c0 and c' = "c0\<lparr> c_shrinking := True, c_shrinklog := [] \<rparr>" and ex = ex0
       and io' = ioOK and now' = 0]
  show ?thesis using b s by blast
qed

section \<open>Properties of the router\<close>

lemma command_plain:
  "msg_Command msg \<notin> {''config'', ''script''} \<Longrightarrow>
   command ex hs devMode okmsg msg conn c = command1 ex hs devMode okmsg msg conn c"
  by (subst command.simps) simp

lemma commandMsg_plain:
  "msg_Command msg \<notin> {''config'', ''script''} \<Longrightarrow> commandMsg ex msg = msg"
  by (subst commandMsg.simps) simp

lemma handleInputCommand_authenticated:
  "Authenticated conn \<Longrightarrow> msg_Command msg \<notin> {''ping'', ''echo'', ''auth''} \<Longrightarrow>
   handleInputCommand ex hs writeAOF devMode okmsg el conn msg c
     = lockedCommand ex hs writeAOF devMode okmsg el conn msg c"
  by (simp add: handleInputCommand_def)

text \<open>
  The commands that the router treats as writes are gated: with a follow host the answer
  is ``not the leader'', else in read-only mode it is ``read only'', both under the
  exclusive lock and without a call of the handler.
\<close>

lemma write_gate:
  assumes w: "msg_Command msg \<in> {''set'', ''del'', ''drop'', ''fset'', ''flushdb'', ''sethook'',
                ''pdelhook'', ''delhook'', ''expire'', ''persist'', ''jset'', ''pdel''}"
    and a: "Authenticated conn"
  shows "handleInputCommand ex hs writeAOF devMode okmsg el conn msg c
     = (if followHost (c_config c) \<noteq> []
        then reply WriteLock conn c [] (writeErr ex msg el ''not the leader'')
        else if readOnly (c_config c)
        then reply WriteLock conn c [] (writeErr ex msg el ''read only'')
        else (case command ex hs devMode okmsg msg conn c of
                Exit e \<Rightarrow> Exit e
              | Crash \<Rightarrow> Crash
              | Normal hr \<Rightarrow> afterCommand ex writeAOF el WriteLock True conn msg hr))"
proof -
  have n: "msg_Command msg \<notin> {''ping'', ''echo'', ''auth''}" using w by auto
  have l: "lockingStrategy msg c = (WriteLock, True, leaderGate c)"
    using w by (simp add: lockingStrategy_def)
  have m: "commandMsg ex msg = msg"
    using w by (intro commandMsg_plain) auto
  show ?thesis
    unfolding handleInputCommand_authenticated [OF a n] lockedCommand_def l m
    by (simp add: leaderGate_def)
qed

text \<open>
  C1. The gate covers the commands of the router's list (\<open>write_gate\<close> above), and
  \<open>JDEL\<close> is not in that list, while \<open>JSET\<close> is. On a follower \<open>JDEL\<close> takes the
  shared lock and runs its handler, which changes the controller, and nothing goes to the
  log; \<open>JSET\<close> on the same follower is answered ``not the leader'' under the exclusive
  lock, with the controller untouched.
\<close>

theorem jdel_bypasses_write_gate:
  "handleInputCommand ex0 hs0 writeAOF0 False (SimpleStringValue ''OK'') ''1ms'' conn1
      (msg0 ''jdel'' [''jdel'', ''k'', ''a'', ''p''] RESP) cFollow
     = Normal \<lparr> r_out = '':1'' @ crlf, r_err = None, r_conn = conn1,
                r_ctrl = cFollow\<lparr> c_lstack := [noDetails\<lparr> d_command := ''cmdJdel'' \<rparr>] \<rparr>,
                r_lock = ReadLock \<rparr>
   \<and> handleInputCommand ex0 hs0 writeAOF0 False (SimpleStringValue ''OK'') ''1ms'' conn1
      (msg0 ''jset'' [''jset'', ''k'', ''a'', ''p'', ''1''] RESP) cFollow
     = Normal \<lparr> r_out = ''-ERR not the leader'' @ crlf, r_err = None, r_conn = conn1,
                r_ctrl = cFollow, r_lock = WriteLock \<rparr>"
proof
  have a: "Authenticated conn1" by (simp add: conn1_def)
  have f: "followHost (c_config cFollow) \<noteq> []" by (simp add: cFollow_def)
  show "handleInputCommand ex0 hs0 writeAOF0 False (SimpleStringValue ''OK'') ''1ms'' conn1
      (msg0 ''jdel'' [''jdel'', ''k'', ''a'', ''p''] RESP) cFollow
     = Normal \<lparr> r_out = '':1'' @ crlf, r_err = None, r_conn = conn1,
                r_ctrl = cFollow\<lparr> c_lstack := [noDetails\<lparr> d_command := ''cmdJdel'' \<rparr>] \<rparr>,
                r_lock = ReadLock \<rparr>"
    by (simp add: handleInputCommand_def lockedCommand_def lockingStrategy_def conn1_def
        msg0_def command_plain commandMsg_plain command1_def withDetails_def hs0_def
        afterCommand_def
        isErrorValue_def isRespValueEmptyString_def serializeOutput_def writeOutput_def
        reply_def ex0_def FormatUint.simps digit_def crlf_def cFollow_def c0_def)
  show "handleInputCommand ex0 hs0 writeAOF0 False (SimpleStringValue ''OK'') ''1ms'' conn1
      (msg0 ''jset'' [''jset'', ''k'', ''a'', ''p'', ''1''] RESP) cFollow
     = Normal \<lparr> r_out = ''-ERR not the leader'' @ crlf, r_err = None, r_conn = conn1,
                r_ctrl = cFollow, r_lock = WriteLock \<rparr>"
    by (simp add: handleInputCommand_def lockedCommand_def lockingStrategy_def conn1_def
        msg0_def leaderGate_def writeErr_def writeOutput_def reply_def ex0_def crlf_def
        cFollow_def)
qed

theorem jdel_bypasses_write_gate_witness:
  "Authenticated conn1 \<and> followHost (c_config cFollow) \<noteq> []
   \<and> (case handleInputCommand ex0 hs0 writeAOF0 False (SimpleStringValue ''OK'') ''1ms'' conn1
              (msg0 ''jdel'' [''jdel'', ''k'', ''a'', ''p''] RESP) cFollow of
         Normal r \<Rightarrow> r_lock r = ReadLock \<and> r_out r = '':1'' @ crlf \<and> r_ctrl r \<noteq> cFollow
       | Exit e \<Rightarrow> False
       | Crash \<Rightarrow> False)"
  using jdel_bypasses_write_gate by (simp add: conn1_def cFollow_def c0_def)

lemma afterCommand_error_response:
  "isErrorValue res \<Longrightarrow>
   afterCommand ex writeAOF el lock write conn msg (res, d, err, ch, hout)
     = reply lock conn ch hout (writeErr ex msg el (value_String ex res))"
  by (simp add: afterCommand_def)

lemma afterCommand_error:
  "\<not> isErrorValue res \<Longrightarrow> errString e \<noteq> ''going live'' \<Longrightarrow>
   afterCommand ex writeAOF el lock write conn msg (res, d, Some e, ch, hout)
     = reply lock conn ch hout (writeErr ex msg el (errString e))"
  by (simp add: afterCommand_def)

lemma afterCommand_no_aof:
  "isErrorValue res \<or> err \<noteq> None \<or> \<not> write \<Longrightarrow>
   afterCommand ex writeAOF el lock write conn msg (res, d, err, ch, hout)
     = afterCommand ex writeAOF' el lock write conn msg (res, d, err, ch, hout)"
  by (auto simp: afterCommand_def)

lemma handleInputCommand_open:
  "Authenticated conn \<or> requirePass (c_config c) = [] \<Longrightarrow>
   msg_Command msg \<notin> {''ping'', ''echo'', ''auth''} \<Longrightarrow>
   handleInputCommand ex hs writeAOF devMode okmsg el conn msg c
     = lockedCommand ex hs writeAOF devMode okmsg el conn msg c"
  by (auto simp: handleInputCommand_def)

text \<open>
  C2. A command that reaches its handler, on a connection that is authenticated or on a
  server without a password: when the handler answers with an error value, or returns an
  error other than the ``going live'' request of a fence search, the client receives that
  error, under the lock the router chose and with the controller as the handler left it.
  The result of the router depends on the function that appends to the log and broadcasts
  only for a write whose handler returned neither an error value nor an error.
\<close>

theorem handler_error_suppresses_aof:
  assumes a: "Authenticated conn \<or> requirePass (c_config c) = []"
    and n: "msg_Command msg \<notin> {''ping'', ''echo'', ''auth''}"
    and g: "lockingStrategy msg c = (lock, write, None)"
    and h: "command ex hs devMode okmsg msg conn c = Normal (res, d, err, ch, hout)"
  shows "(isErrorValue res \<longrightarrow>
            handleInputCommand ex hs writeAOF devMode okmsg el conn msg c
              = reply lock conn ch hout
                  (writeErr ex (commandMsg ex msg) el (value_String ex res)))
     \<and> (\<not> isErrorValue res \<and> err = Some e \<and> errString e \<noteq> ''going live'' \<longrightarrow>
            handleInputCommand ex hs writeAOF devMode okmsg el conn msg c
              = reply lock conn ch hout (writeErr ex (commandMsg ex msg) el (errString e)))
     \<and> (handleInputCommand ex hs writeAOF devMode okmsg el conn msg c
          \<noteq> handleInputCommand ex hs writeAOF' devMode okmsg el conn msg c
        \<longrightarrow> write \<and> \<not> isErrorValue res \<and> err = None)"
proof -
  have r: "handleInputCommand ex hs wa devMode okmsg el conn msg c
      = afterCommand ex wa el lock write conn (commandMsg ex msg) (res, d, err, ch, hout)" for wa
    unfolding handleInputCommand_open [OF a n] lockedCommand_def g h by simp
  have n: "isErrorValue res \<or> err \<noteq> None \<or> \<not> write \<Longrightarrow>
      afterCommand ex writeAOF el lock write conn (commandMsg ex msg) (res, d, err, ch, hout)
        = afterCommand ex writeAOF' el lock write conn (commandMsg ex msg) (res, d, err, ch, hout)"
    by (rule afterCommand_no_aof)
  show ?thesis
    unfolding r
  proof (intro conjI impI)
    assume "isErrorValue res"
    then show "afterCommand ex writeAOF el lock write conn (commandMsg ex msg) (res, d, err, ch, hout)
        = reply lock conn ch hout (writeErr ex (commandMsg ex msg) el (value_String ex res))"
      by (rule afterCommand_error_response)
  next
    assume "\<not> isErrorValue res \<and> err = Some e \<and> errString e \<noteq> ''going live''"
    then show "afterCommand ex writeAOF el lock write conn (commandMsg ex msg) (res, d, err, ch, hout)
        = reply lock conn ch hout (writeErr ex (commandMsg ex msg) el (errString e))"
      by (simp add: afterCommand_error)
  next
    assume "afterCommand ex writeAOF el lock write conn (commandMsg ex msg) (res, d, err, ch, hout)
        \<noteq> afterCommand ex writeAOF' el lock write conn (commandMsg ex msg) (res, d, err, ch, hout)"
    with n show "write" by auto
  next
    assume "afterCommand ex writeAOF el lock write conn (commandMsg ex msg) (res, d, err, ch, hout)
        \<noteq> afterCommand ex writeAOF' el lock write conn (commandMsg ex msg) (res, d, err, ch, hout)"
    with n show "\<not> isErrorValue res" by auto
  next
    assume "afterCommand ex writeAOF el lock write conn (commandMsg ex msg) (res, d, err, ch, hout)
        \<noteq> afterCommand ex writeAOF' el lock write conn (commandMsg ex msg) (res, d, err, ch, hout)"
    with n show "err = None" by (cases err) auto
  qed
qed

theorem handler_error_suppresses_aof_witness:
  "Authenticated conn1
   \<and> lockingStrategy (msg0 ''set'' [''set'', ''k'', ''a'', ''point'', ''1'', ''1''] RESP) c0
       = (WriteLock, True, None)
   \<and> command ex0 hsErr False (SimpleStringValue ''OK'')
        (msg0 ''set'' [''set'', ''k'', ''a'', ''point'', ''1'', ''1''] RESP) conn1 c0
       = Normal (NOMessage, noDetails, Some (Err ''id not found''), c0, [])
   \<and> handleInputCommand ex0 hsErr writeAOF0 False (SimpleStringValue ''OK'') ''1ms'' conn1
        (msg0 ''set'' [''set'', ''k'', ''a'', ''point'', ''1'', ''1''] RESP) c0
       = Normal \<lparr> r_out = ''-ERR id not found'' @ crlf, r_err = None, r_conn = conn1,
                  r_ctrl = c0, r_lock = WriteLock \<rparr>"
proof -
  let ?msg = "msg0 ''set'' [''set'', ''k'', ''a'', ''point'', ''1'', ''1''] RESP"
  have a: "Authenticated conn1" by (simp add: conn1_def)
  then have a': "Authenticated conn1 \<or> requirePass (c_config c0) = []" by simp
  have n: "msg_Command ?msg \<notin> {''ping'', ''echo'', ''auth''}" by (simp add: msg0_def)
  have g: "lockingStrategy ?msg c0 = (WriteLock, True, None)"
    by (simp add: lockingStrategy_def msg0_def leaderGate_def c0_def)
  have h: "command ex0 hsErr False (SimpleStringValue ''OK'') ?msg conn1 c0
       = Normal (NOMessage, noDetails, Some (Err ''id not found''), c0, [])"
    by (simp add: command_plain msg0_def command1_def withDetails_def hsErr_def)
  have i: "\<not> isErrorValue NOMessage" by (simp add: isErrorValue_def NOMessage_def)
  have m: "commandMsg ex0 ?msg = ?msg" by (simp add: commandMsg_plain msg0_def)
  from handler_error_suppresses_aof [OF a' n g h, where e = "Err ''id not found''"
      and writeAOF = writeAOF0 and el = "''1ms''"] i m
  have "handleInputCommand ex0 hsErr writeAOF0 False (SimpleStringValue ''OK'') ''1ms'' conn1 ?msg c0
      = reply WriteLock conn1 c0 [] (writeErr ex0 ?msg ''1ms'' (errString (Err ''id not found'')))"
    by simp
  also have "\<dots> = Normal \<lparr> r_out = ''-ERR id not found'' @ crlf, r_err = None, r_conn = conn1,
                  r_ctrl = c0, r_lock = WriteLock \<rparr>"
    by (simp add: reply_def writeErr_def writeOutput_def msg0_def ex0_def crlf_def)
  finally show ?thesis using a g h by blast
qed

text \<open>
  \<open>PING\<close> and \<open>ECHO\<close> are answered before the password is looked at: on a server with
  a password, an unauthenticated connection that sends \<open>PING\<close> without a token receives
  \<open>+PONG\<close> and not ``authentication required''.
\<close>

theorem ping_before_auth_counterexample:
  "requirePass (c_config cPass) \<noteq> [] \<and> \<not> Authenticated conn0
   \<and> msg_Command (msg0 ''ping'' [''ping''] RESP) \<noteq> ''auth''
   \<and> msg_Auth (msg0 ''ping'' [''ping''] RESP) = []
   \<and> handleInputCommand ex0 hs0 writeAOF0 False (SimpleStringValue ''OK'') ''1ms'' conn0
        (msg0 ''ping'' [''ping''] RESP) cPass
       = Normal \<lparr> r_out = ''+PONG'' @ crlf, r_err = None, r_conn = conn0, r_ctrl = cPass,
                  r_lock = NoLock \<rparr>
   \<and> handleInputCommand ex0 hs0 writeAOF0 False (SimpleStringValue ''OK'') ''1ms'' conn0
        (msg0 ''ping'' [''ping''] RESP) cPass
       \<noteq> reply NoLock conn0 cPass []
            (writeErr ex0 (msg0 ''ping'' [''ping''] RESP) ''1ms'' ''authentication required'')"
  by (simp add: cPass_def conn0_def msg0_def handleInputCommand_def pingReply_def writeOutput_def
      reply_def writeErr_def ex0_def crlf_def)

text \<open>
  C3. On a server with a password, for every command other than \<open>PING\<close> and \<open>ECHO\<close>: an
  unauthenticated connection that sends neither \<open>AUTH\<close> nor a token is answered
  ``authentication required'', and a password (of \<open>AUTH\<close> or of the token) that differs
  from the configured one is answered ``invalid password''; in both cases no lock is taken,
  no handler runs, and the connection and the controller are unchanged.
\<close>

theorem authentication_enforced:
  assumes p: "requirePass (c_config c) \<noteq> []"
    and n: "msg_Command msg \<noteq> ''ping''" "msg_Command msg \<noteq> ''echo''"
  shows "(\<not> Authenticated conn \<and> msg_Command msg \<noteq> ''auth'' \<and> msg_Auth msg = [] \<longrightarrow>
            handleInputCommand ex hs writeAOF devMode okmsg el conn msg c
              = reply NoLock conn c [] (writeErr ex msg el ''authentication required''))
     \<and> ((\<not> Authenticated conn \<or> msg_Command msg = ''auth'')
          \<and> (msg_Command msg = ''auth'' \<or> msg_Auth msg \<noteq> [])
          \<and> requirePass (c_config c)
              \<noteq> TrimSpace ex (if msg_Auth msg \<noteq> [] then msg_Auth msg
                               else if length (msg_Values msg) > 1
                               then value_String ex (msg_Values msg ! 1) else []) \<longrightarrow>
            handleInputCommand ex hs writeAOF devMode okmsg el conn msg c
              = reply NoLock conn c [] (writeErr ex msg el ''invalid password''))"
  using p n by (auto simp: handleInputCommand_def Let_def)

theorem authentication_enforced_witness:
  "requirePass (c_config cPass) \<noteq> []
   \<and> handleInputCommand ex0 hs0 writeAOF0 False (SimpleStringValue ''OK'') ''1ms'' conn0
        (msg0 ''get'' [''get'', ''k'', ''a''] RESP) cPass
       = Normal \<lparr> r_out = ''-ERR authentication required'' @ crlf, r_err = None,
                  r_conn = conn0, r_ctrl = cPass, r_lock = NoLock \<rparr>
   \<and> handleInputCommand ex0 hs0 writeAOF0 False (SimpleStringValue ''OK'') ''1ms'' conn0
        (msg0 ''auth'' [''auth'', ''wrong''] RESP) cPass
       = Normal \<lparr> r_out = ''-ERR invalid password'' @ crlf, r_err = None,
                  r_conn = conn0, r_ctrl = cPass, r_lock = NoLock \<rparr>"
proof -
  have p: "requirePass (c_config cPass) \<noteq> []" by (simp add: cPass_def)
  let ?get = "msg0 ''get'' [''get'', ''k'', ''a''] RESP"
  let ?auth = "msg0 ''auth'' [''auth'', ''wrong''] RESP"
  have g: "msg_Command ?get \<noteq> ''ping''" "msg_Command ?get \<noteq> ''echo''"
    "\<not> Authenticated conn0 \<and> msg_Command ?get \<noteq> ''auth'' \<and> msg_Auth ?get = []"
    by (simp_all add: msg0_def conn0_def)
  have u: "msg_Command ?auth \<noteq> ''ping''" "msg_Command ?auth \<noteq> ''echo''"
    "(\<not> Authenticated conn0 \<or> msg_Command ?auth = ''auth'')
      \<and> (msg_Command ?auth = ''auth'' \<or> msg_Auth ?auth \<noteq> [])
      \<and> requirePass (c_config cPass)
          \<noteq> TrimSpace ex0 (if msg_Auth ?auth \<noteq> [] then msg_Auth ?auth
                            else if length (msg_Values ?auth) > 1
                            then value_String ex0 (msg_Values ?auth ! 1) else [])"
    by (simp_all add: msg0_def conn0_def cPass_def ex0_def)
  have 1: "handleInputCommand ex0 hs0 writeAOF0 False (SimpleStringValue ''OK'') ''1ms'' conn0 ?get cPass
      = reply NoLock conn0 cPass [] (writeErr ex0 ?get ''1ms'' ''authentication required'')"
    using authentication_enforced [OF p g(1,2)] g(3) by blast
  have 2: "handleInputCommand ex0 hs0 writeAOF0 False (SimpleStringValue ''OK'') ''1ms'' conn0 ?auth cPass
      = reply NoLock conn0 cPass [] (writeErr ex0 ?auth ''1ms'' ''invalid password'')"
    using authentication_enforced [OF p u(1,2)] u(3) by blast
  have 3: "reply NoLock conn0 cPass [] (writeErr ex0 ?get ''1ms'' ''authentication required'')
      = Normal \<lparr> r_out = ''-ERR authentication required'' @ crlf, r_err = None,
                  r_conn = conn0, r_ctrl = cPass, r_lock = NoLock \<rparr>"
    by (simp add: reply_def writeErr_def writeOutput_def msg0_def ex0_def crlf_def)
  have 4: "reply NoLock conn0 cPass [] (writeErr ex0 ?auth ''1ms'' ''invalid password'')
      = Normal \<lparr> r_out = ''-ERR invalid password'' @ crlf, r_err = None,
                  r_conn = conn0, r_ctrl = cPass, r_lock = NoLock \<rparr>"
    by (simp add: reply_def writeErr_def writeOutput_def msg0_def ex0_def crlf_def)
  show ?thesis using p 1 2 3 4 by simp
qed

end
